theory Spec2Isabelle
  imports Complex_Main
begin

section \<open>Values, schemas and the ORM class\<close>

text \<open>
  A Python \<open>float\<close> price is a finite number or positive infinity: both pass the
  constraint \<open>gt=0\<close> of the schemas, which negative infinity and NaN never do, so no
  payload and no Record carries those. The service only stores and copies prices, and a
  finite one is modelled as a real number. Python \<open>int\<close> is \<open>int\<close>, \<open>str\<close> is
  \<open>string\<close>.
\<close>

datatype pyfloat = Finite real | PosInf

text \<open>\<open>schemas/product.py\<close>: \<open>ProductCreate\<close>, all four fields required.\<close>

record product_create =
  c_name :: string
  c_description :: string
  c_price :: pyfloat
  c_stock_quantity :: int

text \<open>
  \<open>ProductUpdate\<close>: every field is optional with default \<open>None\<close>. Pydantic remembers
  which fields the request set, so a field is either unset, or set to \<open>None\<close>
  (an explicit JSON null) or to a value.
\<close>

datatype 'a field = Unset | Provided "'a option"

record product_update =
  u_name :: "string field"
  u_description :: "string field"
  u_price :: "pyfloat field"
  u_stock_quantity :: "int field"

text \<open>\<open>ProductResponse\<close>: the Record handed back to callers and stored in the cache.\<close>

record product_response =
  r_id :: string
  r_name :: string
  r_description :: string
  r_price :: pyfloat
  r_stock_quantity :: int

text \<open>
  \<open>models/product.py\<close>: an instance of the ORM class \<open>Product\<close>. Its attributes are
  plain Python attributes, so \<open>setattr\<close> can put \<open>None\<close> into any of them; the
  \<open>nullable=False\<close> columns are only enforced when the session commits.
\<close>

record product =
  p_id :: string
  p_name :: "string option"
  p_description :: "string option"
  p_price :: "pyfloat option"
  p_stock_quantity :: "int option"

text \<open>A row of table \<open>products\<close> without its primary key: four NOT NULL columns.\<close>

record row =
  col_name :: string
  col_description :: string
  col_price :: pyfloat
  col_stock_quantity :: int

text \<open>
  Exceptions. \<open>HTTPException\<close> carries the status code and the detail; the others are the
  library errors that can arise: a Redis connection or timeout error, a Redis error reply,
  the errors of \<open>json.loads\<close> and of the Pydantic constructor, and the errors of a
  database write.
\<close>

datatype exn =
  HTTPException nat string
  | RedisError
  | ResponseError
  | JSONDecodeError
  | TypeError
  | ValidationError
  | IntegrityError
  | OverflowError
  | SQLAlchemyError

definition NotFound :: exn where
  "NotFound = HTTPException 404 ''Product not found''"

definition InvalidRequest :: exn where
  "InvalidRequest = HTTPException 400 ''At least one field is required''"

section \<open>The serialisation libraries\<close>

text \<open>
  Pydantic and \<open>json\<close> are not code of the repository. The three library calls of the
  cache service are parameters of the model: \<open>product.model_dump_json()\<close>, which writes
  a Record as text, and does so for every Record; \<open>json.loads(cached_json)\<close>, which
  reads a text into data of some type \<open>'d\<close> or raises; and \<open>ProductResponse(**data)\<close>,
  which builds a Record from the data or raises. Nothing else is assumed of them but what
  a theorem states about them.
\<close>

record 'd library =
  model_dump_json :: "product_response \<Rightarrow> string"
  json_loads :: "string \<Rightarrow> exn + 'd"
  ProductResponse_init :: "'d \<Rightarrow> exn + product_response"

text \<open>\<open>not cached_json\<close>: \<open>None\<close> and the empty string are falsy.\<close>

definition falsy :: "string option \<Rightarrow> bool" where
  "falsy c = (case c of None \<Rightarrow> True | Some t \<Rightarrow> t = [])"

section \<open>The cache store (Redis) and the service state\<close>

text \<open>
  The Redis server seen through the client: the keys with their text and the expiry the
  text was set with, and a fault plan. Any call may fail with a transient error:
  \<open>faults r 0\<close> tells whether the next call fails, and every call moves the plan on by
  one. No clock is modelled, so an entry stays within its expiry.
\<close>

record redis =
  kv :: "string \<rightharpoonup> string \<times> int"
  faults :: "nat \<Rightarrow> bool"

definition next_call :: "redis \<Rightarrow> redis" where
  "next_call r = r\<lparr>faults := (\<lambda>n. faults r (Suc n))\<rparr>"

definition redis_get :: "redis \<Rightarrow> string \<Rightarrow> (exn + string option) \<times> redis" where
  "redis_get r k =
     (if faults r 0 then (Inl RedisError, next_call r)
      else (Inr (map_option fst (kv r k)), next_call r))"

text \<open>\<open>SET key value EX seconds\<close>: the server refuses an expiry that is not positive.\<close>

definition redis_set :: "redis \<Rightarrow> string \<Rightarrow> string \<Rightarrow> int \<Rightarrow> (exn + unit) \<times> redis" where
  "redis_set r k v ex =
     (if faults r 0 then (Inl RedisError, next_call r)
      else if ex \<le> 0 then (Inl ResponseError, next_call r)
      else (Inr (), next_call (r\<lparr>kv := (kv r)(k \<mapsto> (v, ex))\<rparr>)))"

definition redis_delete :: "redis \<Rightarrow> string \<Rightarrow> (exn + unit) \<times> redis" where
  "redis_delete r k =
     (if faults r 0 then (Inl RedisError, next_call r)
      else (Inr (), next_call (r\<lparr>kv := (kv r)(k := None)\<rparr>)))"

text \<open>The two cache stores of the test suite: one that never fails, one that always does.\<close>

definition healthy :: "redis \<Rightarrow> bool" where
  "healthy r = (\<forall>n. \<not> faults r n)"

definition broken :: "redis \<Rightarrow> bool" where
  "broken r = (\<forall>n. faults r n)"

text \<open>
  What an operation touches: table \<open>products\<close> keyed by its primary key, the Redis
  client of the cache service, \<open>settings.cache_ttl_seconds\<close>, and the calls made to the
  two stores and to the logger so far, oldest first.
\<close>

datatype db_change = Insert product | Modify product | Remove string

datatype event =
  Db_get string
  | Db_commit db_change
  | Db_refresh string
  | Cache_get string
  | Cache_set string string int
  | Cache_delete string
  | Log_warning string exn

record state =
  products :: "string \<rightharpoonup> row"
  client :: redis
  cache_ttl_seconds :: int
  trace :: "event list"

definition emit :: "event \<Rightarrow> state \<Rightarrow> state" where
  "emit e s = s\<lparr>trace := trace s @ [e]\<rparr>"

section \<open>services/cache\_service.py\<close>

definition cache_key :: "string \<Rightarrow> string" where
  "cache_key product_id = ''product:'' @ product_id"

text \<open>The body of the \<open>try\<close> block of \<open>get_product_from_cache\<close>.\<close>

definition get_product_from_cache_try ::
  "'d library \<Rightarrow> string \<Rightarrow> state \<Rightarrow> (exn + product_response option) \<times> state" where
  "get_product_from_cache_try L product_id s =
     (let k = cache_key product_id;
          (got, r) = redis_get (client s) k;
          s1 = emit (Cache_get k) (s\<lparr>client := r\<rparr>)
      in case got of
           Inl exc \<Rightarrow> (Inl exc, s1)
         | Inr cached_json \<Rightarrow>
             if falsy cached_json then (Inr None, s1)
             else (case json_loads L (the cached_json) of
                     Inl exc \<Rightarrow> (Inl exc, s1)
                   | Inr data \<Rightarrow>
                       (case ProductResponse_init L data of
                          Inl exc \<Rightarrow> (Inl exc, s1)
                        | Inr p \<Rightarrow> (Inr (Some p), s1))))"

text \<open>\<open>except Exception\<close>: every exception of the body is logged and turned into \<open>None\<close>.\<close>

definition get_product_from_cache ::
  "'d library \<Rightarrow> string \<Rightarrow> state \<Rightarrow> (exn + product_response option) \<times> state" where
  "get_product_from_cache L product_id s =
     (case get_product_from_cache_try L product_id s of
        (Inl exc, s1) \<Rightarrow>
          (Inr None, emit (Log_warning ''Redis get failed; falling back to DB.'' exc) s1)
      | (Inr p, s1) \<Rightarrow> (Inr p, s1))"

definition set_product_in_cache_try ::
  "'d library \<Rightarrow> product_response \<Rightarrow> state \<Rightarrow> (exn + unit) \<times> state" where
  "set_product_in_cache_try L p s =
     (let k = cache_key (r_id p);
          v = model_dump_json L p;
          ex = cache_ttl_seconds s;
          (done, r) = redis_set (client s) k v ex
      in (done, emit (Cache_set k v ex) (s\<lparr>client := r\<rparr>)))"

definition set_product_in_cache ::
  "'d library \<Rightarrow> product_response \<Rightarrow> state \<Rightarrow> (exn + unit) \<times> state" where
  "set_product_in_cache L p s =
     (case set_product_in_cache_try L p s of
        (Inl exc, s1) \<Rightarrow>
          (Inr (), emit (Log_warning ''Redis set failed; continuing without cache.'' exc) s1)
      | (Inr u, s1) \<Rightarrow> (Inr u, s1))"

definition invalidate_product_cache_try :: "string \<Rightarrow> state \<Rightarrow> (exn + unit) \<times> state" where
  "invalidate_product_cache_try product_id s =
     (let k = cache_key product_id;
          (done, r) = redis_delete (client s) k
      in (done, emit (Cache_delete k) (s\<lparr>client := r\<rparr>)))"

definition invalidate_product_cache :: "string \<Rightarrow> state \<Rightarrow> (exn + unit) \<times> state" where
  "invalidate_product_cache product_id s =
     (case invalidate_product_cache_try product_id s of
        (Inl exc, s1) \<Rightarrow> (Inr (), emit (Log_warning ''Redis delete failed; continuing.'' exc) s1)
      | (Inr u, s1) \<Rightarrow> (Inr u, s1))"

section \<open>The durable store through the ORM session\<close>

text \<open>An instance loaded from a row.\<close>

definition load :: "string \<Rightarrow> row \<Rightarrow> product" where
  "load k r = \<lparr>p_id = k, p_name = Some (col_name r), p_description = Some (col_description r),
                p_price = Some (col_price r), p_stock_quantity = Some (col_stock_quantity r)\<rparr>"

text \<open>
  The row an instance is written to. The driver binds the parameters of the statement
  before the statement runs: an integer outside the 64 bits of an SQLite INTEGER raises
  \<open>OverflowError\<close> there. A bound \<open>None\<close> then meets a NOT NULL column when the statement
  runs, and is refused with \<open>IntegrityError\<close>.
\<close>

definition int64 :: "int \<Rightarrow> bool" where
  "int64 n = (- (2 ^ 63) \<le> n \<and> n < 2 ^ 63)"

definition to_row :: "product \<Rightarrow> exn + row" where
  "to_row p =
     (if (case p_stock_quantity p of None \<Rightarrow> False | Some q \<Rightarrow> \<not> int64 q) then Inl OverflowError
      else case (p_name p, p_description p, p_price p, p_stock_quantity p) of
             (Some n, Some d, Some pr, Some q) \<Rightarrow>
               Inr \<lparr>col_name = n, col_description = d, col_price = pr, col_stock_quantity = q\<rparr>
           | _ \<Rightarrow> Inl IntegrityError)"

text \<open>\<open>db.get(Product, product_id)\<close>.\<close>

definition db_get :: "string \<Rightarrow> state \<Rightarrow> product option \<times> state" where
  "db_get product_id s =
     (map_option (load product_id) (products s product_id), emit (Db_get product_id) s)"

text \<open>
  \<open>db.add(..)\<close> or \<open>db.delete(..)\<close> followed by \<open>db.commit()\<close>. Beside the errors of
  writing the row, a second row with the same primary key is refused with
  \<open>IntegrityError\<close>, and an UPDATE that matches no row is an ORM error. A commit that
  fails leaves the table as it was (the session is closed, and so rolled back, at the end
  of the request).
\<close>

definition db_commit :: "db_change \<Rightarrow> state \<Rightarrow> (exn + unit) \<times> state" where
  "db_commit c s =
     (let s1 = emit (Db_commit c) s in
      case c of
        Insert p \<Rightarrow>
          (case to_row p of
             Inl exc \<Rightarrow> (Inl exc, s1)
           | Inr r \<Rightarrow>
               if products s (p_id p) \<noteq> None then (Inl IntegrityError, s1)
               else (Inr (), s1\<lparr>products := (products s)(p_id p \<mapsto> r)\<rparr>))
      | Modify p \<Rightarrow>
          (case to_row p of
             Inl exc \<Rightarrow> (Inl exc, s1)
           | Inr r \<Rightarrow>
               if products s (p_id p) = None then (Inl SQLAlchemyError, s1)
               else (Inr (), s1\<lparr>products := (products s)(p_id p \<mapsto> r)\<rparr>))
      | Remove k \<Rightarrow> (Inr (), s1\<lparr>products := (products s)(k := None)\<rparr>))"

text \<open>\<open>db.refresh(product)\<close>: the attributes are read again from the row.\<close>

definition db_refresh :: "product \<Rightarrow> state \<Rightarrow> (exn + product) \<times> state" where
  "db_refresh p s =
     (case products s (p_id p) of
        None \<Rightarrow> (Inl SQLAlchemyError, emit (Db_refresh (p_id p)) s)
      | Some r \<Rightarrow> (Inr (load (p_id p) r), emit (Db_refresh (p_id p)) s))"

section \<open>services/product\_repository.py\<close>

text \<open>\<open>new_id\<close> is the value of \<open>str(uuid.uuid4())\<close>.\<close>

definition create_product :: "string \<Rightarrow> product_create \<Rightarrow> state \<Rightarrow> (exn + product) \<times> state" where
  "create_product new_id payload s =
     (let product = \<lparr>p_id = new_id, p_name = Some (c_name payload),
                      p_description = Some (c_description payload),
                      p_price = Some (c_price payload),
                      p_stock_quantity = Some (c_stock_quantity payload)\<rparr>
      in case db_commit (Insert product) s of
           (Inl exc, s1) \<Rightarrow> (Inl exc, s1)
         | (Inr u, s1) \<Rightarrow> db_refresh product s1)"

definition get_product_by_id :: "string \<Rightarrow> state \<Rightarrow> product option \<times> state" where
  "get_product_by_id product_id s = db_get product_id s"

text \<open>
  An item \<open>(field_name, value)\<close> of the dictionary \<open>payload.model_dump(exclude_unset=True)\<close>:
  the constructor is the field name.
\<close>

datatype assignment =
  Assign_name "string option"
  | Assign_description "string option"
  | Assign_price "pyfloat option"
  | Assign_stock_quantity "int option"

definition model_dump_exclude_unset :: "product_update \<Rightarrow> assignment list" where
  "model_dump_exclude_unset payload =
     (case u_name payload of Unset \<Rightarrow> [] | Provided v \<Rightarrow> [Assign_name v]) @
     (case u_description payload of Unset \<Rightarrow> [] | Provided v \<Rightarrow> [Assign_description v]) @
     (case u_price payload of Unset \<Rightarrow> [] | Provided v \<Rightarrow> [Assign_price v]) @
     (case u_stock_quantity payload of Unset \<Rightarrow> [] | Provided v \<Rightarrow> [Assign_stock_quantity v])"

fun setattr :: "product \<Rightarrow> assignment \<Rightarrow> product" where
  "setattr product (Assign_name v) = product\<lparr>p_name := v\<rparr>"
| "setattr product (Assign_description v) = product\<lparr>p_description := v\<rparr>"
| "setattr product (Assign_price v) = product\<lparr>p_price := v\<rparr>"
| "setattr product (Assign_stock_quantity v) = product\<lparr>p_stock_quantity := v\<rparr>"

text \<open>The merged instance: the loop over \<open>update_values.items()\<close>.\<close>

definition merge :: "product \<Rightarrow> product_update \<Rightarrow> product" where
  "merge product payload = foldl setattr product (model_dump_exclude_unset payload)"

definition update_product :: "product \<Rightarrow> product_update \<Rightarrow> state \<Rightarrow> (exn + product) \<times> state" where
  "update_product product payload s =
     (let merged = merge product payload
      in case db_commit (Modify merged) s of
           (Inl exc, s1) \<Rightarrow> (Inl exc, s1)
         | (Inr u, s1) \<Rightarrow> db_refresh merged s1)"

definition delete_product :: "product \<Rightarrow> state \<Rightarrow> (exn + unit) \<times> state" where
  "delete_product product s = db_commit (Remove (p_id product)) s"

section \<open>api/products.py\<close>

text \<open>\<open>ProductResponse.model_validate(product)\<close>, reading the attributes of the instance.\<close>

definition model_validate :: "product \<Rightarrow> exn + product_response" where
  "model_validate p = (case (p_name p, p_description p, p_price p, p_stock_quantity p) of
       (Some n, Some d, Some pr, Some q) \<Rightarrow>
         Inr \<lparr>r_id = p_id p, r_name = n, r_description = d, r_price = pr, r_stock_quantity = q\<rparr>
     | _ \<Rightarrow> Inl ValidationError)"

definition create_product_endpoint ::
  "string \<Rightarrow> product_create \<Rightarrow> state \<Rightarrow> (exn + product_response) \<times> state" where
  "create_product_endpoint new_id payload s =
     (case create_product new_id payload s of
        (Inl exc, s1) \<Rightarrow> (Inl exc, s1)
      | (Inr product, s1) \<Rightarrow>
          (case model_validate product of
             Inl exc \<Rightarrow> (Inl exc, s1)
           | Inr response \<Rightarrow>
               (case invalidate_product_cache (r_id response) s1 of
                  (Inl exc, s2) \<Rightarrow> (Inl exc, s2)
                | (Inr u, s2) \<Rightarrow> (Inr response, s2))))"

definition get_product_endpoint ::
  "'d library \<Rightarrow> string \<Rightarrow> state \<Rightarrow> (exn + product_response) \<times> state" where
  "get_product_endpoint L product_id s =
     (case get_product_from_cache L product_id s of
        (Inl exc, s1) \<Rightarrow> (Inl exc, s1)
      | (Inr (Some cached_product), s1) \<Rightarrow> (Inr cached_product, s1)
      | (Inr None, s1) \<Rightarrow>
          (case get_product_by_id product_id s1 of
             (None, s2) \<Rightarrow> (Inl NotFound, s2)
           | (Some product, s2) \<Rightarrow>
               (case model_validate product of
                  Inl exc \<Rightarrow> (Inl exc, s2)
                | Inr response \<Rightarrow>
                    (case set_product_in_cache L response s2 of
                       (Inl exc, s3) \<Rightarrow> (Inl exc, s3)
                     | (Inr u, s3) \<Rightarrow> (Inr response, s3)))))"

definition update_product_endpoint ::
  "string \<Rightarrow> product_update \<Rightarrow> state \<Rightarrow> (exn + product_response) \<times> state" where
  "update_product_endpoint product_id payload s =
     (if model_dump_exclude_unset payload = [] then (Inl InvalidRequest, s)
      else case get_product_by_id product_id s of
             (None, s1) \<Rightarrow> (Inl NotFound, s1)
           | (Some product, s1) \<Rightarrow>
               (case update_product product payload s1 of
                  (Inl exc, s2) \<Rightarrow> (Inl exc, s2)
                | (Inr updated_product, s2) \<Rightarrow>
                    (case invalidate_product_cache product_id s2 of
                       (Inl exc, s3) \<Rightarrow> (Inl exc, s3)
                     | (Inr u, s3) \<Rightarrow>
                         (case model_validate updated_product of
                            Inl exc \<Rightarrow> (Inl exc, s3)
                          | Inr response \<Rightarrow> (Inr response, s3)))))"

definition delete_product_endpoint :: "string \<Rightarrow> state \<Rightarrow> (exn + unit) \<times> state" where
  "delete_product_endpoint product_id s =
     (case get_product_by_id product_id s of
        (None, s1) \<Rightarrow> (Inl NotFound, s1)
      | (Some product, s1) \<Rightarrow>
          (case delete_product product s1 of
             (Inl exc, s2) \<Rightarrow> (Inl exc, s2)
           | (Inr u, s2) \<Rightarrow>
               (case invalidate_product_cache product_id s2 of
                  (Inl exc, s3) \<Rightarrow> (Inl exc, s3)
                | (Inr u', s3) \<Rightarrow> (Inr (), s3))))"

section \<open>Sequences of requests\<close>

text \<open>
  The four inbound operations; a Create carries the identifier \<open>uuid4\<close> draws for it.
  A reply is the Record of the response body, or the empty body of status 204.
\<close>

datatype request =
  Create string product_create
  | Read string
  | Update string product_update
  | Delete string

datatype reply = Record product_response | No_content

definition handle :: "'d library \<Rightarrow> request \<Rightarrow> state \<Rightarrow> (exn + reply) \<times> state" where
  "handle L q s = (case q of
       Create new_id payload \<Rightarrow>
         (case create_product_endpoint new_id payload s of (res, s') \<Rightarrow> (map_sum id Record res, s'))
     | Read product_id \<Rightarrow>
         (case get_product_endpoint L product_id s of (res, s') \<Rightarrow> (map_sum id Record res, s'))
     | Update product_id payload \<Rightarrow>
         (case update_product_endpoint product_id payload s of (res, s') \<Rightarrow> (map_sum id Record res, s'))
     | Delete product_id \<Rightarrow>
         (case delete_product_endpoint product_id s of (res, s') \<Rightarrow> (map_sum id (\<lambda>u. No_content) res, s')))"

fun run :: "'d library \<Rightarrow> request list \<Rightarrow> state \<Rightarrow> (exn + reply) list" where
  "run L [] s = []"
| "run L (q # qs) s = (case handle L q s of (res, s') \<Rightarrow> res # run L qs s')"

section \<open>Notions used to state the properties\<close>

text \<open>The Record the durable store holds for an identifier.\<close>

definition response_of :: "string \<Rightarrow> row \<Rightarrow> product_response" where
  "response_of k r = \<lparr>r_id = k, r_name = col_name r, r_description = col_description r,
                       r_price = col_price r, r_stock_quantity = col_stock_quantity r\<rparr>"

definition stored :: "state \<Rightarrow> string \<Rightarrow> product_response option" where
  "stored s product_id = map_option (response_of product_id) (products s product_id)"

text \<open>
  The Record the lookup makes of a cached text: none when the text is empty, or when
  \<open>json.loads\<close> or the constructor refuses it. A text is malformed when one of the two
  refuses it.
\<close>

definition parsed :: "'d library \<Rightarrow> string \<Rightarrow> product_response option" where
  "parsed L t =
     (if t = [] then None
      else case json_loads L t of
             Inl exc \<Rightarrow> None
           | Inr data \<Rightarrow> (case ProductResponse_init L data of Inl exc \<Rightarrow> None | Inr p \<Rightarrow> Some p))"

definition malformed :: "'d library \<Rightarrow> string \<Rightarrow> bool" where
  "malformed L t = (case json_loads L t of
       Inl exc \<Rightarrow> True
     | Inr data \<Rightarrow> (case ProductResponse_init L data of Inl exc \<Rightarrow> True | Inr p \<Rightarrow> False))"

text \<open>The Record a successful cache-store read yields for an identifier.\<close>

definition cached :: "'d library \<Rightarrow> redis \<Rightarrow> string \<Rightarrow> product_response option" where
  "cached L r product_id = (case kv r (cache_key product_id) of
       None \<Rightarrow> None
     | Some (t, ex) \<Rightarrow> parsed L t)"

text \<open>
  The exception, if any, that the \<open>try\<close> block of the cache lookup raises, and what the
  lookup then returns to its caller.
\<close>

definition lookup_error :: "'d library \<Rightarrow> redis \<Rightarrow> string \<Rightarrow> exn option" where
  "lookup_error L r product_id =
     (if faults r 0 then Some RedisError
      else case kv r (cache_key product_id) of
             None \<Rightarrow> None
           | Some (t, ex) \<Rightarrow>
               if t = [] then None
               else (case json_loads L t of
                       Inl exc \<Rightarrow> Some exc
                     | Inr data \<Rightarrow>
                         (case ProductResponse_init L data of Inl exc \<Rightarrow> Some exc | Inr p \<Rightarrow> None)))"

definition served :: "'d library \<Rightarrow> redis \<Rightarrow> string \<Rightarrow> product_response option" where
  "served L r product_id = (if faults r 0 then None else cached L r product_id)"

text \<open>The calls an operation added to the trace.\<close>

definition calls :: "state \<Rightarrow> state \<Rightarrow> event list" where
  "calls s s' = drop (length (trace s)) (trace s')"

text \<open>The calls among them that go to the durable store or to the cache store.\<close>

fun is_store_call :: "event \<Rightarrow> bool" where
  "is_store_call (Log_warning m exc) = False"
| "is_store_call e = True"

definition store_calls :: "state \<Rightarrow> state \<Rightarrow> event list" where
  "store_calls s s' = filter is_store_call (calls s s')"

text \<open>Every Record the cache can serve is the Record the durable store holds.\<close>

definition coherent :: "'d library \<Rightarrow> state \<Rightarrow> bool" where
  "coherent L s =
     (\<forall>product_id p. cached L (client s) product_id = Some p \<longrightarrow> stored s product_id = Some p)"

text \<open>
  Two states of the same table, one with a cache store that never fails and serves only
  what the table holds, the other with a cache store that always fails.
\<close>

definition paired :: "'d library \<Rightarrow> state \<Rightarrow> state \<Rightarrow> bool" where
  "paired L s b =
     (healthy (client s) \<and> broken (client b) \<and> products b = products s \<and> coherent L s)"


definition faithful :: "'d library \<Rightarrow> bool" where
  "faithful L = (\<forall>p p'. parsed L (model_dump_json L p) = Some p' \<longrightarrow> p' = p)"

section \<open>The stores and the libraries of the examples\<close>

text \<open>
  Fault plans: the fake Redis of \<open>tests/conftest.py\<close> never fails, its \<open>BrokenRedis\<close>
  fails on every call, and a transient error hits one call only.
\<close>

definition never :: "nat \<Rightarrow> bool" where
  "never n = False"

definition always :: "nat \<Rightarrow> bool" where
  "always n = True"

definition only_call :: "nat \<Rightarrow> nat \<Rightarrow> bool" where
  "only_call k n = (n = k)"

definition FakeRedis :: redis where
  "FakeRedis = \<lparr>kv = Map.empty, faults = never\<rparr>"

definition BrokenRedis :: redis where
  "BrokenRedis = \<lparr>kv = Map.empty, faults = always\<rparr>"

text \<open>
  A table with the first sample product of \<open>seed_products\<close> under identifier \<open>p1\<close>, and
  the settings of the test fixtures (\<open>cache_ttl_seconds=120\<close>).
\<close>

definition mouse :: row where
  "mouse = \<lparr>col_name = ''Wireless Mouse'', col_description = ''Ergonomic 2.4GHz wireless mouse'',
            col_price = Finite (2499 / 100), col_stock_quantity = 120\<rparr>"

definition shop :: "redis \<Rightarrow> state" where
  "shop r = \<lparr>products = [''p1'' \<mapsto> mouse], client = r, cache_ttl_seconds = 120, trace = []\<rparr>"

text \<open>The payloads of the tests: a keyboard to create, and an update of the price alone.\<close>

definition keyboard :: product_create where
  "keyboard = \<lparr>c_name = ''Mechanical Keyboard'', c_description = ''RGB backlit mechanical keyboard'',
               c_price = Finite (159 / 2), c_stock_quantity = 75\<rparr>"

definition new_price :: product_update where
  "new_price = \<lparr>u_name = Unset, u_description = Unset,
                u_price = Provided (Some (Finite (1999 / 100))), u_stock_quantity = Unset\<rparr>"

definition null_name :: product_update where
  "null_name = \<lparr>u_name = Provided None, u_description = Unset, u_price = Unset,
                u_stock_quantity = Unset\<rparr>"

text \<open>
  The Records of the examples: the mouse, the mouse at the new price, the keyboard created
  under identifier \<open>p2\<close>, the keyboard at the new price, and a mouse whose price is
  positive infinity.
\<close>

definition mouse_record :: product_response where
  "mouse_record = \<lparr>r_id = ''p1'', r_name = ''Wireless Mouse'',
                   r_description = ''Ergonomic 2.4GHz wireless mouse'',
                   r_price = Finite (2499 / 100), r_stock_quantity = 120\<rparr>"

definition cheaper_mouse :: product_response where
  "cheaper_mouse = mouse_record\<lparr>r_price := Finite (1999 / 100)\<rparr>"

definition keyboard_record :: product_response where
  "keyboard_record = \<lparr>r_id = ''p2'', r_name = ''Mechanical Keyboard'',
                      r_description = ''RGB backlit mechanical keyboard'',
                      r_price = Finite (159 / 2), r_stock_quantity = 75\<rparr>"

definition cheaper_keyboard :: product_response where
  "cheaper_keyboard = keyboard_record\<lparr>r_price := Finite (1999 / 100)\<rparr>"

definition priceless_mouse :: product_response where
  "priceless_mouse = mouse_record\<lparr>r_price := PosInf\<rparr>"

text \<open>
  A stand-in for Pydantic and \<open>json\<close> in the examples, in the manner of the fake Redis of
  the test suite. It writes and reads the Records of the examples as the two libraries
  do, a price of positive infinity as \<open>null\<close> among them, and it knows no other Record
  and no other text: it writes the empty text for the first and refuses the second. The
  data it reads is the dictionary of the five values, with no price where the text has
  \<open>null\<close>; the constructor refuses a dictionary without a price. The examples write
  and read these Records and these texts only, and every general theorem is stated for an
  arbitrary library.
\<close>

datatype document = Document string string string "pyfloat option" int

definition document_of :: "product_response \<Rightarrow> document" where
  "document_of p =
     Document (r_id p) (r_name p) (r_description p)
       (case r_price p of Finite x \<Rightarrow> Some (Finite x) | PosInf \<Rightarrow> None) (r_stock_quantity p)"

definition sample_texts :: "(product_response \<times> string) list" where
  \<open>sample_texts =
     [(mouse_record,
       ''{"id":"p1","name":"Wireless Mouse","description":"Ergonomic 2.4GHz wireless mouse","price":24.99,"stock_quantity":120}''),
      (cheaper_mouse,
       ''{"id":"p1","name":"Wireless Mouse","description":"Ergonomic 2.4GHz wireless mouse","price":19.99,"stock_quantity":120}''),
      (keyboard_record,
       ''{"id":"p2","name":"Mechanical Keyboard","description":"RGB backlit mechanical keyboard","price":79.5,"stock_quantity":75}''),
      (cheaper_keyboard,
       ''{"id":"p2","name":"Mechanical Keyboard","description":"RGB backlit mechanical keyboard","price":19.99,"stock_quantity":75}''),
      (priceless_mouse,
       ''{"id":"p1","name":"Wireless Mouse","description":"Ergonomic 2.4GHz wireless mouse","price":null,"stock_quantity":120}'')]\<close>

definition sample_dump :: "product_response \<Rightarrow> string" where
  "sample_dump p = (case map_of sample_texts p of None \<Rightarrow> [] | Some t \<Rightarrow> t)"

definition sample_loads :: "string \<Rightarrow> exn + document" where
  "sample_loads t =
     (case map_of (map (\<lambda>(p, t). (t, document_of p)) sample_texts) t of
        None \<Rightarrow> Inl JSONDecodeError
      | Some d \<Rightarrow> Inr d)"

fun sample_init :: "document \<Rightarrow> exn + product_response" where
  "sample_init (Document i n d None q) = Inl ValidationError"
| "sample_init (Document i n d (Some pr) q) =
     Inr \<lparr>r_id = i, r_name = n, r_description = d, r_price = pr, r_stock_quantity = q\<rparr>"

definition sample_library :: "document library" where
  "sample_library =
     \<lparr>model_dump_json = sample_dump, json_loads = sample_loads,
      ProductResponse_init = sample_init\<rparr>"

text \<open>The text the stand-in writes for the mouse: what the first Read leaves in the cache.\<close>

definition mouse_text :: string where
  "mouse_text = sample_dump mouse_record"

text \<open>The fake Redis as the first Read of the mouse leaves it: the text under its key.\<close>

definition WarmRedis :: redis where
  "WarmRedis = \<lparr>kv = [''product:p1'' \<mapsto> (mouse_text, 120)], faults = never\<rparr>"

section \<open>What each Cache Layer call does\<close>

lemmas cache_defs = get_product_from_cache_def get_product_from_cache_try_def
  set_product_in_cache_def set_product_in_cache_try_def
  invalidate_product_cache_def invalidate_product_cache_try_def
  redis_get_def redis_set_def redis_delete_def emit_def

lemmas repo_defs = create_product_def get_product_by_id_def update_product_def delete_product_def
  db_get_def db_commit_def db_refresh_def emit_def

lemma get_eq:
  "get_product_from_cache L pid s =
     (Inr (served L (client s) pid),
      s\<lparr>client := next_call (client s),
        trace := trace s @ Cache_get (cache_key pid) #
          (case lookup_error L (client s) pid of None \<Rightarrow> []
           | Some exc \<Rightarrow> [Log_warning ''Redis get failed; falling back to DB.'' exc])\<rparr>)"
  by (auto simp: cache_defs served_def cached_def parsed_def lookup_error_def falsy_def Let_def
      split: sum.splits prod.splits option.splits)

lemma set_eq:
  "set_product_in_cache L p s =
     (Inr (),
      s\<lparr>client := next_call
            (if faults (client s) 0 \<or> cache_ttl_seconds s \<le> 0 then client s
             else (client s)\<lparr>kv := (kv (client s))
                    (cache_key (r_id p) \<mapsto> (model_dump_json L p, cache_ttl_seconds s))\<rparr>),
        trace := trace s @
          Cache_set (cache_key (r_id p)) (model_dump_json L p) (cache_ttl_seconds s) #
          (if faults (client s) 0
           then [Log_warning ''Redis set failed; continuing without cache.'' RedisError]
           else if cache_ttl_seconds s \<le> 0
           then [Log_warning ''Redis set failed; continuing without cache.'' ResponseError]
           else [])\<rparr>)"
  by (auto simp: cache_defs Let_def next_call_def split: sum.splits prod.splits)

lemma inv_eq:
  "invalidate_product_cache pid s =
     (Inr (),
      s\<lparr>client := next_call
            (if faults (client s) 0 then client s
             else (client s)\<lparr>kv := (kv (client s))(cache_key pid := None)\<rparr>),
        trace := trace s @ Cache_delete (cache_key pid) #
          (if faults (client s) 0 then [Log_warning ''Redis delete failed; continuing.'' RedisError]
           else [])\<rparr>)"
  by (auto simp: cache_defs Let_def next_call_def split: sum.splits prod.splits)

lemma cache_key_inj: "cache_key a = cache_key b \<longleftrightarrow> a = b"
  by (simp add: cache_key_def)

lemma next_call_simps:
  "kv (next_call r) = kv r"
  "faults (next_call r) n = faults r (Suc n)"
  by (simp_all add: next_call_def)

lemma emit_simps:
  "products (emit e s) = products s"
  "client (emit e s) = client s"
  "cache_ttl_seconds (emit e s) = cache_ttl_seconds s"
  "trace (emit e s) = trace s @ [e]"
  by (simp_all add: emit_def)

lemma cached_cong: "kv r = kv r' \<Longrightarrow> cached L r = cached L r'"
  by (simp add: cached_def fun_eq_iff)

lemma cached_next: "cached L (next_call r) = cached L r"
  by (rule cached_cong) (simp add: next_call_simps)

lemma cached_del:
  "cached L (r\<lparr>kv := (kv r)(cache_key a := None)\<rparr>) b = (if b = a then None else cached L r b)"
  by (auto simp: cached_def cache_key_inj)

lemma cached_set:
  "cached L (r\<lparr>kv := (kv r)(cache_key a \<mapsto> (t, ex))\<rparr>) b =
     (if b = a then parsed L t else cached L r b)"
  by (auto simp: cached_def cache_key_inj)

lemma healthy_next: "healthy r \<Longrightarrow> healthy (next_call r)"
  by (simp add: healthy_def next_call_def)

lemma broken_next: "broken r \<Longrightarrow> broken (next_call r)"
  by (simp add: broken_def next_call_def)

lemma healthy_kv: "healthy (r\<lparr>kv := m\<rparr>) = healthy r"
  by (simp add: healthy_def)

lemma healthy_first: "healthy r \<Longrightarrow> \<not> faults r 0"
  by (simp add: healthy_def)

lemma broken_first: "broken r \<Longrightarrow> faults r 0"
  by (simp add: broken_def)

lemma healthy_FakeRedis: "healthy FakeRedis"
  by (simp add: healthy_def FakeRedis_def never_def)

lemma broken_BrokenRedis: "broken BrokenRedis"
  by (simp add: broken_def BrokenRedis_def always_def)

section \<open>What the stand-in libraries do\<close>

lemma sample_library_simps:
  "model_dump_json sample_library = sample_dump"
  "json_loads sample_library = sample_loads"
  "ProductResponse_init sample_library = sample_init"
  by (simp_all add: sample_library_def)

lemmas sample_records = mouse_record_def cheaper_mouse_def keyboard_record_def
  cheaper_keyboard_def priceless_mouse_def

lemma sample_parsed:
  "parsed sample_library (sample_dump mouse_record) = Some mouse_record"
  "parsed sample_library (sample_dump cheaper_mouse) = Some cheaper_mouse"
  "parsed sample_library (sample_dump keyboard_record) = Some keyboard_record"
  "parsed sample_library (sample_dump cheaper_keyboard) = Some cheaper_keyboard"
  "parsed sample_library (sample_dump priceless_mouse) = None"
  by (simp_all add: parsed_def sample_library_simps sample_dump_def sample_loads_def
      sample_texts_def document_of_def sample_records)

lemma faithful_sample: "faithful sample_library"
  unfolding faithful_def
proof (intro allI impI)
  fix p p'
  assume r: "parsed sample_library (model_dump_json sample_library p) = Some p'"
  then have "map_of sample_texts p \<noteq> None"
    by (cases "map_of sample_texts p") (simp_all add: parsed_def sample_library_simps sample_dump_def)
  then have "p = mouse_record \<or> p = cheaper_mouse \<or> p = keyboard_record \<or>
             p = cheaper_keyboard \<or> p = priceless_mouse"
    by (auto simp: sample_texts_def split: if_splits)
  with r sample_parsed show "p' = p"
    by (auto simp: sample_library_simps)
qed

section \<open>What each endpoint does\<close>

lemma dump_empty_iff:
  "model_dump_exclude_unset payload = [] \<longleftrightarrow>
     u_name payload = Unset \<and> u_description payload = Unset \<and>
     u_price payload = Unset \<and> u_stock_quantity payload = Unset"
  by (auto simp: model_dump_exclude_unset_def split: field.splits)

lemma merge_fields:
  "p_id (merge p payload) = p_id p"
  "p_name (merge p payload) = (case u_name payload of Unset \<Rightarrow> p_name p | Provided v \<Rightarrow> v)"
  "p_description (merge p payload) =
     (case u_description payload of Unset \<Rightarrow> p_description p | Provided v \<Rightarrow> v)"
  "p_price (merge p payload) = (case u_price payload of Unset \<Rightarrow> p_price p | Provided v \<Rightarrow> v)"
  "p_stock_quantity (merge p payload) =
     (case u_stock_quantity payload of Unset \<Rightarrow> p_stock_quantity p | Provided v \<Rightarrow> v)"
  by (auto simp: merge_def model_dump_exclude_unset_def split: field.splits)

lemma load_id: "p_id (load k r) = k"
  by (simp add: load_def)

lemma model_validate_load: "model_validate (load k r) = Inr (response_of k r)"
  by (simp add: model_validate_def load_def response_of_def)

lemma to_row_Inr:
  "to_row p = Inr r \<Longrightarrow>
     p_name p = Some (col_name r) \<and> p_description p = Some (col_description r) \<and>
     p_price p = Some (col_price r) \<and> p_stock_quantity p = Some (col_stock_quantity r) \<and>
     int64 (col_stock_quantity r)"
  by (auto simp: to_row_def split: if_splits option.splits)

lemma to_row_Inl:
  "to_row p = Inl exc \<Longrightarrow> exc = OverflowError \<or> exc = IntegrityError"
  by (auto simp: to_row_def split: if_splits option.splits)

lemma load_of_row: "to_row p = Inr r \<Longrightarrow> load (p_id p) r = p"
  by (drule to_row_Inr) (simp add: load_def)

lemma stored_id: "stored s pid = Some r \<Longrightarrow> r_id r = pid"
  by (auto simp: stored_def response_of_def)

lemma read_eq:
  "get_product_endpoint L pid s =
     (case served L (client s) pid of
        Some c \<Rightarrow> (Inr c, snd (get_product_from_cache L pid s))
      | None \<Rightarrow>
          (case stored s pid of
             None \<Rightarrow> (Inl NotFound, emit (Db_get pid) (snd (get_product_from_cache L pid s)))
           | Some r \<Rightarrow>
               (Inr r, snd (set_product_in_cache L r
                              (emit (Db_get pid) (snd (get_product_from_cache L pid s)))))))"
  by (auto simp: get_product_endpoint_def get_eq set_eq repo_defs stored_def model_validate_load
      split: option.splits)

text \<open>The instance a Create builds from its payload.\<close>

lemma create_eq:
  "create_product_endpoint new_id payload s =
     (let p = \<lparr>p_id = new_id, p_name = Some (c_name payload),
               p_description = Some (c_description payload),
               p_price = Some (c_price payload),
               p_stock_quantity = Some (c_stock_quantity payload)\<rparr>;
          r = \<lparr>col_name = c_name payload, col_description = c_description payload,
               col_price = c_price payload, col_stock_quantity = c_stock_quantity payload\<rparr>;
          s1 = emit (Db_commit (Insert p)) s
      in if \<not> int64 (c_stock_quantity payload) then (Inl OverflowError, s1)
         else if products s new_id \<noteq> None then (Inl IntegrityError, s1)
         else (Inr (response_of new_id r),
               snd (invalidate_product_cache new_id
                      (emit (Db_refresh new_id) (s1\<lparr>products := (products s)(new_id \<mapsto> r)\<rparr>)))))"
  by (simp add: create_product_endpoint_def repo_defs inv_eq to_row_def load_def
      model_validate_def response_of_def Let_def)

lemma update_eq:
  "update_product_endpoint pid payload s =
     (if model_dump_exclude_unset payload = [] then (Inl InvalidRequest, s)
      else case products s pid of
             None \<Rightarrow> (Inl NotFound, emit (Db_get pid) s)
           | Some r \<Rightarrow>
               (let merged = merge (load pid r) payload;
                    s1 = emit (Db_commit (Modify merged)) (emit (Db_get pid) s)
                in case to_row merged of
                     Inl exc \<Rightarrow> (Inl exc, s1)
                   | Inr r' \<Rightarrow>
                       (Inr (response_of pid r'),
                        snd (invalidate_product_cache pid
                               (emit (Db_refresh pid) (s1\<lparr>products := (products s)(pid \<mapsto> r')\<rparr>))))))"
  by (auto simp: update_product_endpoint_def repo_defs inv_eq merge_fields load_id
      model_validate_load Let_def split: option.splits sum.splits)

lemma delete_eq:
  "delete_product_endpoint pid s =
     (if products s pid = None then (Inl NotFound, emit (Db_get pid) s)
      else (Inr (),
            snd (invalidate_product_cache pid
                   ((emit (Db_commit (Remove pid)) (emit (Db_get pid) s))
                      \<lparr>products := (products s)(pid := None)\<rparr>))))"
  by (auto simp: delete_product_endpoint_def repo_defs inv_eq load_id Let_def split: option.splits)

section \<open>Empty updates are rejected before anything is touched\<close>

text \<open>
  Claim C6. An Update whose payload sets no field fails with \<open>InvalidRequest\<close>
  (status 400) for every identifier, and the state it returns is the state it was given:
  the table, the cache store with its fault plan, and the trace of calls are unchanged,
  so no store read or write and no cache invalidation took place.
\<close>

theorem update_empty_payload_rejected:
  "update_product_endpoint product_id
     \<lparr>u_name = Unset, u_description = Unset, u_price = Unset, u_stock_quantity = Unset\<rparr> s
   = (Inl (HTTPException 400 ''At least one field is required''), s)"
  by (simp add: update_product_endpoint_def model_dump_exclude_unset_def InvalidRequest_def)

section \<open>Partial updates\<close>

text \<open>
  Claim C5. When an Update succeeds, the identifier had a Record in the durable store, and
  the Record returned is the Record the store holds afterwards, under the same identifier.
  Every field the payload leaves unset has its value from before the update, and every
  field the payload provides has the provided value. When the Update fails, the table is
  unchanged, so every field of the persisted Record keeps its value.
\<close>

theorem update_keeps_omitted_fields:
  "update_product_endpoint pid payload s = (res, s') \<Longrightarrow>
   (case res of
      Inl exc \<Rightarrow> products s' = products s
    | Inr response \<Rightarrow>
        (\<exists>old. stored s pid = Some old \<and> stored s' pid = Some response \<and>
           r_id response = pid \<and> r_id old = pid \<and>
           (u_name payload = Unset \<longrightarrow> r_name response = r_name old) \<and>
           (u_description payload = Unset \<longrightarrow> r_description response = r_description old) \<and>
           (u_price payload = Unset \<longrightarrow> r_price response = r_price old) \<and>
           (u_stock_quantity payload = Unset \<longrightarrow>
              r_stock_quantity response = r_stock_quantity old) \<and>
           (\<forall>v. u_name payload = Provided v \<longrightarrow> v = Some (r_name response)) \<and>
           (\<forall>v. u_description payload = Provided v \<longrightarrow> v = Some (r_description response)) \<and>
           (\<forall>v. u_price payload = Provided v \<longrightarrow> v = Some (r_price response)) \<and>
           (\<forall>v. u_stock_quantity payload = Provided v \<longrightarrow>
              v = Some (r_stock_quantity response))))"
  by (auto simp: update_eq inv_eq stored_def response_of_def merge_fields load_def
      Let_def emit_def split: if_splits option.splits sum.splits field.splits
      dest!: to_row_Inr)

text \<open>The price of the sample product is updated alone: name, description and stock stay.\<close>

theorem update_keeps_omitted_fields_witness:
  "update_product_endpoint ''p1'' new_price (shop FakeRedis) =
     (Inr \<lparr>r_id = ''p1'', r_name = ''Wireless Mouse'',
           r_description = ''Ergonomic 2.4GHz wireless mouse'',
           r_price = Finite (1999 / 100), r_stock_quantity = 120\<rparr>,
      snd (update_product_endpoint ''p1'' new_price (shop FakeRedis))) \<and>
   stored (shop FakeRedis) ''p1'' =
     Some \<lparr>r_id = ''p1'', r_name = ''Wireless Mouse'',
           r_description = ''Ergonomic 2.4GHz wireless mouse'',
           r_price = Finite (2499 / 100), r_stock_quantity = 120\<rparr> \<and>
   stored (snd (update_product_endpoint ''p1'' new_price (shop FakeRedis))) ''p1'' =
     Some \<lparr>r_id = ''p1'', r_name = ''Wireless Mouse'',
           r_description = ''Ergonomic 2.4GHz wireless mouse'',
           r_price = Finite (1999 / 100), r_stock_quantity = 120\<rparr>"
proof -
  have "fst (update_product_endpoint ''p1'' new_price (shop FakeRedis)) =
     Inr \<lparr>r_id = ''p1'', r_name = ''Wireless Mouse'',
          r_description = ''Ergonomic 2.4GHz wireless mouse'',
          r_price = Finite (1999 / 100), r_stock_quantity = 120\<rparr>"
    by (simp add: update_eq shop_def new_price_def mouse_def model_dump_exclude_unset_def
        merge_fields load_def to_row_def int64_def response_of_def Let_def)
  then have eq: "update_product_endpoint ''p1'' new_price (shop FakeRedis) =
     (Inr \<lparr>r_id = ''p1'', r_name = ''Wireless Mouse'',
           r_description = ''Ergonomic 2.4GHz wireless mouse'',
           r_price = Finite (1999 / 100), r_stock_quantity = 120\<rparr>,
      snd (update_product_endpoint ''p1'' new_price (shop FakeRedis)))"
    by (simp add: prod_eq_iff)
  have old: "stored (shop FakeRedis) ''p1'' =
     Some \<lparr>r_id = ''p1'', r_name = ''Wireless Mouse'',
           r_description = ''Ergonomic 2.4GHz wireless mouse'',
           r_price = Finite (2499 / 100), r_stock_quantity = 120\<rparr>"
    by (simp add: stored_def shop_def mouse_def response_of_def)
  from update_keeps_omitted_fields [OF eq] old eq show ?thesis
    by simp
qed

section \<open>An explicit null in an update\<close>

text \<open>
  Claim C10. A field that the payload sets to null is merged as \<open>None\<close> into the
  instance rather than left untouched. A payload with such a field is not empty for the
  check of the endpoint, so the Update does not fail with \<open>InvalidRequest\<close>; and when the
  identifier has a row, the commit is attempted with the merged instance, whose null
  attribute has no row to be written to. The write is refused and the Update ends, after
  the read and the commit attempt, in \<open>IntegrityError\<close> (the NOT NULL column), or in
  \<open>OverflowError\<close> when the merged stock does not fit the column either.
\<close>

theorem explicit_null_is_present_and_assigned:
  "(u_name payload = Provided None \<longrightarrow> p_name (merge product payload) = None) \<and>
   (u_description payload = Provided None \<longrightarrow> p_description (merge product payload) = None) \<and>
   (u_price payload = Provided None \<longrightarrow> p_price (merge product payload) = None) \<and>
   (u_stock_quantity payload = Provided None \<longrightarrow>
      p_stock_quantity (merge product payload) = None) \<and>
   (u_name payload = Provided None \<or> u_description payload = Provided None \<or>
    u_price payload = Provided None \<or> u_stock_quantity payload = Provided None \<longrightarrow>
      model_dump_exclude_unset payload \<noteq> [] \<and>
      fst (update_product_endpoint pid payload s) \<noteq> Inl InvalidRequest \<and>
      (\<forall>old. products s pid = Some old \<longrightarrow>
         update_product_endpoint pid payload s =
           (Inl (case p_stock_quantity (merge (load pid old) payload) of
                   None \<Rightarrow> IntegrityError
                 | Some q \<Rightarrow> if int64 q then IntegrityError else OverflowError),
            s\<lparr>trace := trace s @
                 [Db_get pid, Db_commit (Modify (merge (load pid old) payload))]\<rparr>) \<and>
         (\<forall>r. to_row (merge (load pid old) payload) \<noteq> Inr r)))"
  by (auto simp: update_eq dump_empty_iff merge_fields to_row_def emit_def Let_def NotFound_def
      InvalidRequest_def split: option.splits sum.splits if_splits)

text \<open>The name of the sample product set to null: the other attributes keep their values.\<close>

theorem explicit_null_is_present_and_assigned_witness:
  "u_name null_name = Provided None \<and>
   p_name (merge (load ''p1'' mouse) null_name) = None \<and>
   p_price (merge (load ''p1'' mouse) null_name) = Some (Finite (2499 / 100)) \<and>
   model_dump_exclude_unset null_name = [Assign_name None] \<and>
   products (shop FakeRedis) ''p1'' = Some mouse \<and>
   update_product_endpoint ''p1'' null_name (shop FakeRedis) =
     (Inl IntegrityError,
      (shop FakeRedis)\<lparr>trace := trace (shop FakeRedis) @
         [Db_get ''p1'', Db_commit (Modify (merge (load ''p1'' mouse) null_name))]\<rparr>)"
  using explicit_null_is_present_and_assigned
          [of null_name "load ''p1'' mouse" "''p1''" "shop FakeRedis"]
  by (simp add: null_name_def shop_def model_dump_exclude_unset_def merge_fields load_def
      mouse_def int64_def)

section \<open>Invalidation comes after the commit\<close>

lemma update_failed:
  "update_product_endpoint pid payload s = (Inl exc, s') \<Longrightarrow>
     (\<forall>k. Cache_delete k \<notin> set (calls s s')) \<and> client s' = client s \<and> products s' = products s"
  by (auto simp: update_eq calls_def emit_def Let_def split: if_splits option.splits sum.splits)

lemma delete_failed:
  "delete_product_endpoint pid s = (Inl exc, s') \<Longrightarrow>
     (\<forall>k. Cache_delete k \<notin> set (calls s s')) \<and> client s' = client s \<and> products s' = products s"
  by (auto simp: delete_eq calls_def emit_def split: if_splits)

lemma update_succeeded:
  assumes "update_product_endpoint pid payload s = (Inr response, s')"
  shows "\<exists>old updated s2.
           products s pid = Some old \<and>
           update_product (load pid old) payload (emit (Db_get pid) s) = (Inr updated, s2) \<and>
           stored s2 pid = Some response \<and>
           client s2 = client s \<and>
           invalidate_product_cache pid s2 = (Inr (), s') \<and>
           store_calls s s' =
             [Db_get pid, Db_commit (Modify (merge (load pid old) payload)), Db_refresh pid,
              Cache_delete (cache_key pid)] \<and>
           kv (client s') =
             (if faults (client s) 0 then kv (client s)
              else (kv (client s))(cache_key pid := None)) \<and>
           faults (client s') = (\<lambda>n. faults (client s) (Suc n)) \<and>
           stored s' pid = Some response"
proof -
  from assms obtain old r' where old: "products s pid = Some old"
    and r': "to_row (merge (load pid old) payload) = Inr r'"
    and resp: "response = response_of pid r'"
    and s': "s' = snd (invalidate_product_cache pid (emit (Db_refresh pid)
               ((emit (Db_commit (Modify (merge (load pid old) payload))) (emit (Db_get pid) s))
                  \<lparr>products := (products s)(pid \<mapsto> r')\<rparr>)))"
    by (auto simp: update_eq Let_def split: if_splits option.splits sum.splits)
  let ?s2 = "emit (Db_refresh pid)
               ((emit (Db_commit (Modify (merge (load pid old) payload))) (emit (Db_get pid) s))
                  \<lparr>products := (products s)(pid \<mapsto> r')\<rparr>)"
  have up: "update_product (load pid old) payload (emit (Db_get pid) s) = (Inr (load pid r'), ?s2)"
    using old r' by (simp add: repo_defs merge_fields load_id Let_def)
  have st: "stored ?s2 pid = Some response"
    by (simp add: stored_def emit_def resp)
  have cl: "client ?s2 = client s"
    by (simp add: emit_def)
  have inv: "invalidate_product_cache pid ?s2 = (Inr (), s')"
    by (simp add: s' inv_eq)
  have tr: "store_calls s s' =
      [Db_get pid, Db_commit (Modify (merge (load pid old) payload)), Db_refresh pid,
       Cache_delete (cache_key pid)]"
    by (simp add: s' inv_eq emit_def store_calls_def calls_def)
  have kv': "kv (client s') =
      (if faults (client s) 0 then kv (client s) else (kv (client s))(cache_key pid := None))"
    by (simp add: s' inv_eq emit_def next_call_simps)
  have fl: "faults (client s') = (\<lambda>n. faults (client s) (Suc n))"
    by (simp add: s' inv_eq emit_def next_call_def)
  have st': "stored s' pid = Some response"
    by (simp add: s' inv_eq stored_def emit_def resp)
  from old up st cl inv tr kv' fl st' show ?thesis
    by blast
qed

lemma delete_succeeded:
  assumes "delete_product_endpoint pid s = (Inr u, s')"
  shows "\<exists>old s2.
           products s pid = Some old \<and>
           delete_product (load pid old) (emit (Db_get pid) s) = (Inr (), s2) \<and>
           stored s2 pid = None \<and>
           client s2 = client s \<and>
           invalidate_product_cache pid s2 = (Inr (), s') \<and>
           store_calls s s' = [Db_get pid, Db_commit (Remove pid), Cache_delete (cache_key pid)] \<and>
           kv (client s') =
             (if faults (client s) 0 then kv (client s)
              else (kv (client s))(cache_key pid := None)) \<and>
           faults (client s') = (\<lambda>n. faults (client s) (Suc n)) \<and>
           stored s' pid = None"
proof -
  from assms obtain old where old: "products s pid = Some old"
    and s': "s' = snd (invalidate_product_cache pid
                   ((emit (Db_commit (Remove pid)) (emit (Db_get pid) s))
                      \<lparr>products := (products s)(pid := None)\<rparr>))"
    by (auto simp: delete_eq split: if_splits)
  let ?s2 = "(emit (Db_commit (Remove pid)) (emit (Db_get pid) s))\<lparr>products := (products s)(pid := None)\<rparr>"
  have del: "delete_product (load pid old) (emit (Db_get pid) s) = (Inr (), ?s2)"
    by (simp add: repo_defs load_id Let_def)
  have st: "stored ?s2 pid = None"
    by (simp add: stored_def emit_def)
  have cl: "client ?s2 = client s"
    by (simp add: emit_def)
  have inv: "invalidate_product_cache pid ?s2 = (Inr (), s')"
    by (simp add: s' inv_eq)
  have tr: "store_calls s s' = [Db_get pid, Db_commit (Remove pid), Cache_delete (cache_key pid)]"
    by (simp add: s' inv_eq emit_def store_calls_def calls_def)
  have kv': "kv (client s') =
      (if faults (client s) 0 then kv (client s) else (kv (client s))(cache_key pid := None))"
    by (simp add: s' inv_eq emit_def next_call_simps)
  have fl: "faults (client s') = (\<lambda>n. faults (client s) (Suc n))"
    by (simp add: s' inv_eq emit_def next_call_def)
  have st': "stored s' pid = None"
    by (simp add: s' inv_eq stored_def emit_def)
  from old del st cl inv tr kv' fl st' show ?thesis
    by blast
qed

text \<open>
  Claim C8. In an Update and in a Delete the cache invalidation comes strictly after the
  durable write has committed. When the operation fails (empty payload, unknown
  identifier, refused commit) no invalidation is called at all and the cache store is
  untouched. When it succeeds, the invalidation is called on the state that the
  successful, committed write returned, where the durable store already holds the new
  Record (or no Record, for a Delete) and the cache store is still as the operation found
  it. The invalidation is one call to the cache store, the next of its fault plan: unless
  that call fails, the key of the identifier is gone from the cache store afterwards, and
  nothing else of the cache store or of the table has changed. The calls of the operation
  to the two stores are, in this order, the read, the commit, the refresh (Update only)
  and the cache delete of the key of the identifier. The body is sequential, so nothing
  runs beside the commit.
\<close>

theorem invalidation_follows_commit:
  "(update_product_endpoint pid payload s = (res, s') \<longrightarrow>
     (case res of
        Inl exc \<Rightarrow> (\<forall>k. Cache_delete k \<notin> set (calls s s')) \<and> client s' = client s
      | Inr response \<Rightarrow>
          (\<exists>old updated s2.
             products s pid = Some old \<and>
             update_product (load pid old) payload (emit (Db_get pid) s) = (Inr updated, s2) \<and>
             stored s2 pid = Some response \<and>
             client s2 = client s \<and>
             invalidate_product_cache pid s2 = (Inr (), s') \<and>
             store_calls s s' =
               [Db_get pid, Db_commit (Modify (merge (load pid old) payload)), Db_refresh pid,
                Cache_delete (cache_key pid)] \<and>
             kv (client s') =
               (if faults (client s) 0 then kv (client s)
                else (kv (client s))(cache_key pid := None)) \<and>
             faults (client s') = (\<lambda>n. faults (client s) (Suc n)) \<and>
             stored s' pid = Some response))) \<and>
   (delete_product_endpoint pid s = (res', t') \<longrightarrow>
     (case res' of
        Inl exc \<Rightarrow> (\<forall>k. Cache_delete k \<notin> set (calls s t')) \<and> client t' = client s
      | Inr u \<Rightarrow>
          (\<exists>old s2.
             products s pid = Some old \<and>
             delete_product (load pid old) (emit (Db_get pid) s) = (Inr (), s2) \<and>
             stored s2 pid = None \<and>
             client s2 = client s \<and>
             invalidate_product_cache pid s2 = (Inr (), t') \<and>
             store_calls s t' = [Db_get pid, Db_commit (Remove pid), Cache_delete (cache_key pid)] \<and>
             kv (client t') =
               (if faults (client s) 0 then kv (client s)
                else (kv (client s))(cache_key pid := None)) \<and>
             faults (client t') = (\<lambda>n. faults (client s) (Suc n)) \<and>
             stored t' pid = None)))"
proof (intro conjI impI)
  assume "update_product_endpoint pid payload s = (res, s')"
  then show "case res of
        Inl exc \<Rightarrow> (\<forall>k. Cache_delete k \<notin> set (calls s s')) \<and> client s' = client s
      | Inr response \<Rightarrow>
          (\<exists>old updated s2.
             products s pid = Some old \<and>
             update_product (load pid old) payload (emit (Db_get pid) s) = (Inr updated, s2) \<and>
             stored s2 pid = Some response \<and>
             client s2 = client s \<and>
             invalidate_product_cache pid s2 = (Inr (), s') \<and>
             store_calls s s' =
               [Db_get pid, Db_commit (Modify (merge (load pid old) payload)), Db_refresh pid,
                Cache_delete (cache_key pid)] \<and>
             kv (client s') =
               (if faults (client s) 0 then kv (client s)
                else (kv (client s))(cache_key pid := None)) \<and>
             faults (client s') = (\<lambda>n. faults (client s) (Suc n)) \<and>
             stored s' pid = Some response)"
    using update_failed [of pid payload s _ s'] update_succeeded [of pid payload s _ s']
    by (cases res) simp_all
next
  assume "delete_product_endpoint pid s = (res', t')"
  then show "case res' of
        Inl exc \<Rightarrow> (\<forall>k. Cache_delete k \<notin> set (calls s t')) \<and> client t' = client s
      | Inr u \<Rightarrow>
          (\<exists>old s2.
             products s pid = Some old \<and>
             delete_product (load pid old) (emit (Db_get pid) s) = (Inr (), s2) \<and>
             stored s2 pid = None \<and>
             client s2 = client s \<and>
             invalidate_product_cache pid s2 = (Inr (), t') \<and>
             store_calls s t' = [Db_get pid, Db_commit (Remove pid), Cache_delete (cache_key pid)] \<and>
             kv (client t') =
               (if faults (client s) 0 then kv (client s)
                else (kv (client s))(cache_key pid := None)) \<and>
             faults (client t') = (\<lambda>n. faults (client s) (Suc n)) \<and>
             stored t' pid = None)"
    using delete_failed [of pid s _ t'] delete_succeeded [of pid s _ t']
    by (cases res') simp_all
qed

text \<open>
  An Update and a Delete of the sample product while the cache holds its entry: the entry
  is there before, and gone after, each of them.
\<close>

theorem invalidation_follows_commit_witness:
  "kv (client (shop WarmRedis)) ''product:p1'' = Some (mouse_text, 120) \<and>
   fst (update_product_endpoint ''p1'' new_price (shop WarmRedis)) =
     Inr \<lparr>r_id = ''p1'', r_name = ''Wireless Mouse'',
          r_description = ''Ergonomic 2.4GHz wireless mouse'',
          r_price = Finite (1999 / 100), r_stock_quantity = 120\<rparr> \<and>
   store_calls (shop WarmRedis) (snd (update_product_endpoint ''p1'' new_price (shop WarmRedis))) =
     [Db_get ''p1'', Db_commit (Modify (merge (load ''p1'' mouse) new_price)), Db_refresh ''p1'',
      Cache_delete ''product:p1''] \<and>
   kv (client (snd (update_product_endpoint ''p1'' new_price (shop WarmRedis)))) ''product:p1'' =
     None \<and>
   fst (delete_product_endpoint ''p1'' (shop WarmRedis)) = Inr () \<and>
   store_calls (shop WarmRedis) (snd (delete_product_endpoint ''p1'' (shop WarmRedis))) =
     [Db_get ''p1'', Db_commit (Remove ''p1''), Cache_delete ''product:p1''] \<and>
   kv (client (snd (delete_product_endpoint ''p1'' (shop WarmRedis)))) ''product:p1'' = None"
proof -
  have u: "fst (update_product_endpoint ''p1'' new_price (shop WarmRedis)) =
     Inr \<lparr>r_id = ''p1'', r_name = ''Wireless Mouse'',
          r_description = ''Ergonomic 2.4GHz wireless mouse'',
          r_price = Finite (1999 / 100), r_stock_quantity = 120\<rparr>"
    by (simp add: update_eq shop_def new_price_def mouse_def model_dump_exclude_unset_def
        merge_fields load_def to_row_def int64_def response_of_def Let_def)
  have d: "fst (delete_product_endpoint ''p1'' (shop WarmRedis)) = Inr ()"
    by (simp add: delete_eq shop_def)
  have p: "products (shop WarmRedis) ''p1'' = Some mouse"
    by (simp add: shop_def)
  have w: "kv (client (shop WarmRedis)) ''product:p1'' = Some (mouse_text, 120)"
    "\<not> faults (client (shop WarmRedis)) 0"
    by (simp_all add: shop_def WarmRedis_def never_def)
  from u have ue: "update_product_endpoint ''p1'' new_price (shop WarmRedis) =
     (Inr \<lparr>r_id = ''p1'', r_name = ''Wireless Mouse'',
           r_description = ''Ergonomic 2.4GHz wireless mouse'',
           r_price = Finite (1999 / 100), r_stock_quantity = 120\<rparr>,
      snd (update_product_endpoint ''p1'' new_price (shop WarmRedis)))"
    by (simp add: prod_eq_iff)
  from d have de: "delete_product_endpoint ''p1'' (shop WarmRedis) =
     (Inr (), snd (delete_product_endpoint ''p1'' (shop WarmRedis)))"
    by (simp add: prod_eq_iff)
  from invalidation_follows_commit
         [of "''p1''" new_price "shop WarmRedis"
             "Inr \<lparr>r_id = ''p1'', r_name = ''Wireless Mouse'',
                   r_description = ''Ergonomic 2.4GHz wireless mouse'',
                   r_price = Finite (1999 / 100), r_stock_quantity = 120\<rparr>"
             "snd (update_product_endpoint ''p1'' new_price (shop WarmRedis))"
             "Inr ()"
             "snd (delete_product_endpoint ''p1'' (shop WarmRedis))"]
       ue de p u d w
  show ?thesis
    by (auto simp: cache_key_def)
qed

section \<open>Storing a Record and looking it up\<close>





section \<open>Outcome and durable effect of each endpoint\<close>

lemma served_none:
  "faults r 0 \<or> kv r (cache_key pid) = None \<or>
   (\<exists>t ex. kv r (cache_key pid) = Some (t, ex) \<and> (t = [] \<or> malformed L t)) \<Longrightarrow>
   served L r pid = None"
  by (elim disjE exE conjE)
     (auto simp: served_def cached_def parsed_def malformed_def split: sum.splits)

lemma create_outcome:
  "fst (create_product_endpoint new_id payload s) =
     (if \<not> int64 (c_stock_quantity payload) then Inl OverflowError
      else if products s new_id \<noteq> None then Inl IntegrityError
      else Inr \<lparr>r_id = new_id, r_name = c_name payload, r_description = c_description payload,
                r_price = c_price payload, r_stock_quantity = c_stock_quantity payload\<rparr>)"
  by (simp add: create_eq Let_def response_of_def)

lemma update_outcome:
  "fst (update_product_endpoint pid payload s) =
     (if model_dump_exclude_unset payload = [] then Inl InvalidRequest
      else case products s pid of
             None \<Rightarrow> Inl NotFound
           | Some r \<Rightarrow>
               (case to_row (merge (load pid r) payload) of
                  Inl exc \<Rightarrow> Inl exc
                | Inr r' \<Rightarrow> Inr (response_of pid r')))"
  by (simp add: update_eq Let_def split: option.splits sum.splits)

lemma delete_outcome:
  "fst (delete_product_endpoint pid s) = (if products s pid = None then Inl NotFound else Inr ())"
  by (simp add: delete_eq)

lemma read_outcome:
  "fst (get_product_endpoint L pid s) =
     (case served L (client s) pid of
        Some c \<Rightarrow> Inr c
      | None \<Rightarrow> (case stored s pid of None \<Rightarrow> Inl NotFound | Some r \<Rightarrow> Inr r))"
  by (simp add: read_eq split: option.splits)

lemma create_products:
  "products (snd (create_product_endpoint new_id payload s)) =
     (if \<not> int64 (c_stock_quantity payload) \<or> products s new_id \<noteq> None then products s
      else (products s)(new_id \<mapsto> \<lparr>col_name = c_name payload, col_description = c_description payload,
               col_price = c_price payload, col_stock_quantity = c_stock_quantity payload\<rparr>))"
  by (simp add: create_eq Let_def inv_eq emit_def)

lemma update_products:
  "products (snd (update_product_endpoint pid payload s)) =
     (if model_dump_exclude_unset payload = [] then products s
      else case products s pid of
             None \<Rightarrow> products s
           | Some r \<Rightarrow>
               (case to_row (merge (load pid r) payload) of
                  Inl exc \<Rightarrow> products s
                | Inr r' \<Rightarrow> (products s)(pid \<mapsto> r')))"
  by (simp add: update_eq Let_def inv_eq emit_def split: option.splits sum.splits)

lemma delete_products:
  "products (snd (delete_product_endpoint pid s)) = (products s)(pid := None)"
  by (auto simp: delete_eq inv_eq emit_def)

lemma read_products:
  "products (snd (get_product_endpoint L pid s)) = products s"
  by (simp add: read_eq get_eq set_eq emit_def split: option.splits)

section \<open>The Cache Layer absorbs every failure\<close>

text \<open>
  Claim C4, as amended. Each Cache Layer call returns normally on every state: the lookup
  returns a value, and that value is absent when the cache-store call fails, when the key
  is missing and when the stored text is malformed (refused by \<open>json.loads\<close> or by the
  constructor); storing and invalidating return unit, and a failed cache-store call leaves
  the keys as they were. None of the three touches the table. Past the Cache Layer, the
  outcome and the durable effect of Create, Update and Delete are the same whatever the
  cache store holds and whichever of its calls fail, and Read never changes the table. A
  Read whose lookup returns absent, a failed cache-store call among the reasons, answers
  from the durable store: the Record held there, or \<open>NotFound\<close>. The only exceptions an
  endpoint ends in are the two HTTP errors and the two refused writes, never an error of
  the cache path.
\<close>

theorem cache_layer_absorbs_failures:
  "(\<exists>found s'. get_product_from_cache L pid s = (Inr found, s') \<and>
       products s' = products s \<and> kv (client s') = kv (client s) \<and>
       (faults (client s) 0 \<or> kv (client s) (cache_key pid) = None \<or>
        (\<exists>t ex. kv (client s) (cache_key pid) = Some (t, ex) \<and> malformed L t) \<longrightarrow> found = None)) \<and>
   (\<exists>s'. set_product_in_cache L p s = (Inr (), s') \<and> products s' = products s \<and>
       (faults (client s) 0 \<longrightarrow> kv (client s') = kv (client s))) \<and>
   (\<exists>s'. invalidate_product_cache pid s = (Inr (), s') \<and> products s' = products s \<and>
       (faults (client s) 0 \<longrightarrow> kv (client s') = kv (client s))) \<and>
   fst (create_product_endpoint new_id payload s) =
     fst (create_product_endpoint new_id payload (s\<lparr>client := r\<rparr>)) \<and>
   products (snd (create_product_endpoint new_id payload s)) =
     products (snd (create_product_endpoint new_id payload (s\<lparr>client := r\<rparr>))) \<and>
   fst (update_product_endpoint pid upd s) = fst (update_product_endpoint pid upd (s\<lparr>client := r\<rparr>)) \<and>
   products (snd (update_product_endpoint pid upd s)) =
     products (snd (update_product_endpoint pid upd (s\<lparr>client := r\<rparr>))) \<and>
   fst (delete_product_endpoint pid s) = fst (delete_product_endpoint pid (s\<lparr>client := r\<rparr>)) \<and>
   products (snd (delete_product_endpoint pid s)) =
     products (snd (delete_product_endpoint pid (s\<lparr>client := r\<rparr>))) \<and>
   products (snd (get_product_endpoint L pid s)) = products s \<and>
   (fst (get_product_from_cache L pid s) = Inr None \<longrightarrow>
      fst (get_product_endpoint L pid s) =
        (case stored s pid of None \<Rightarrow> Inl NotFound | Some c \<Rightarrow> Inr c)) \<and>
   (\<forall>exc. fst (create_product_endpoint new_id payload s) = Inl exc \<or>
          fst (get_product_endpoint L pid s) = Inl exc \<or>
          fst (update_product_endpoint pid upd s) = Inl exc \<or>
          fst (delete_product_endpoint pid s) = Inl exc \<longrightarrow>
          exc = IntegrityError \<or> exc = OverflowError \<or> exc = NotFound \<or> exc = InvalidRequest)"
proof -
  have g: "\<exists>found s'. get_product_from_cache L pid s = (Inr found, s') \<and>
       products s' = products s \<and> kv (client s') = kv (client s) \<and>
       (faults (client s) 0 \<or> kv (client s) (cache_key pid) = None \<or>
        (\<exists>t ex. kv (client s) (cache_key pid) = Some (t, ex) \<and> malformed L t) \<longrightarrow> found = None)"
    using served_none [of "client s" pid L] by (auto simp: get_eq next_call_def)
  have st: "\<exists>s'. set_product_in_cache L p s = (Inr (), s') \<and> products s' = products s \<and>
       (faults (client s) 0 \<longrightarrow> kv (client s') = kv (client s))"
    by (simp add: set_eq next_call_def)
  have iv: "\<exists>s'. invalidate_product_cache pid s = (Inr (), s') \<and> products s' = products s \<and>
       (faults (client s) 0 \<longrightarrow> kv (client s') = kv (client s))"
    by (simp add: inv_eq next_call_def)
  have c: "fst (create_product_endpoint new_id payload s) =
           fst (create_product_endpoint new_id payload (s\<lparr>client := r\<rparr>))"
    by (simp add: create_outcome)
  have c': "products (snd (create_product_endpoint new_id payload s)) =
            products (snd (create_product_endpoint new_id payload (s\<lparr>client := r\<rparr>)))"
    by (simp add: create_products)
  have u: "fst (update_product_endpoint pid upd s) = fst (update_product_endpoint pid upd (s\<lparr>client := r\<rparr>))"
    by (simp add: update_outcome)
  have u': "products (snd (update_product_endpoint pid upd s)) =
            products (snd (update_product_endpoint pid upd (s\<lparr>client := r\<rparr>)))"
    by (simp add: update_products split: option.splits sum.splits)
  have d: "fst (delete_product_endpoint pid s) = fst (delete_product_endpoint pid (s\<lparr>client := r\<rparr>))"
    by (simp add: delete_outcome)
  have d': "products (snd (delete_product_endpoint pid s)) =
            products (snd (delete_product_endpoint pid (s\<lparr>client := r\<rparr>)))"
    by (simp add: delete_products)
  have rp: "products (snd (get_product_endpoint L pid s)) = products s"
    by (rule read_products)
  have rd: "fst (get_product_from_cache L pid s) = Inr None \<longrightarrow>
      fst (get_product_endpoint L pid s) =
        (case stored s pid of None \<Rightarrow> Inl NotFound | Some c \<Rightarrow> Inr c)"
    by (simp add: read_outcome get_eq)
  have ex: "\<forall>exc. fst (create_product_endpoint new_id payload s) = Inl exc \<or>
          fst (get_product_endpoint L pid s) = Inl exc \<or>
          fst (update_product_endpoint pid upd s) = Inl exc \<or>
          fst (delete_product_endpoint pid s) = Inl exc \<longrightarrow>
          exc = IntegrityError \<or> exc = OverflowError \<or> exc = NotFound \<or> exc = InvalidRequest"
    by (auto simp: create_outcome read_outcome update_outcome delete_outcome
        split: if_splits option.splits sum.splits dest: to_row_Inl)
  from g st iv c c' u u' d d' rp rd ex show ?thesis
    by blast
qed

text \<open>The broken Redis of the test suite: every call fails, every operation still answers.\<close>

theorem cache_layer_absorbs_failures_witness:
  "faults (client (shop BrokenRedis)) 0 \<and>
   fst (get_product_from_cache sample_library ''p1'' (shop BrokenRedis)) = Inr None \<and>
   fst (set_product_in_cache sample_library mouse_record (shop BrokenRedis)) = Inr () \<and>
   fst (invalidate_product_cache ''p1'' (shop BrokenRedis)) = Inr () \<and>
   fst (get_product_endpoint sample_library ''p1'' (shop BrokenRedis)) = Inr mouse_record \<and>
   fst (get_product_endpoint sample_library ''p2'' (shop BrokenRedis)) = Inl NotFound"
proof -
  have f: "faults (client (shop BrokenRedis)) 0"
    by (simp add: shop_def BrokenRedis_def always_def)
  have s1: "stored (shop BrokenRedis) ''p1'' = Some mouse_record"
    by (simp add: stored_def shop_def response_of_def mouse_def mouse_record_def)
  have s2: "stored (shop BrokenRedis) ''p2'' = None"
    by (simp add: stored_def shop_def)
  from cache_layer_absorbs_failures
         [of sample_library "''p1''" "shop BrokenRedis" mouse_record "''p1''" keyboard FakeRedis new_price]
       cache_layer_absorbs_failures
         [of sample_library "''p2''" "shop BrokenRedis" mouse_record "''p1''" keyboard FakeRedis new_price]
       f s1 s2
  show ?thesis
    by auto
qed

text \<open>
  The claim as first stated says that no cache failure changes the outcome of an operation.
  Take the state of the test \<open>test_get_product_cache_miss_then_hit\<close>: the cache holds the
  mouse and the row is gone from the table. The Read is served the Record from the cache;
  on the same table and the same keys, with a cache store whose next call fails, the Read
  fails with \<open>NotFound\<close>. The same happens within one run of requests: a Read that fills
  the cache, a Delete whose invalidation fails, and a Read, which succeeds when its
  cache-store call works and fails with \<open>NotFound\<close> when that call fails too.
\<close>

theorem cache_failure_changes_read_counterexample:
  "kv (client ((shop (WarmRedis\<lparr>faults := only_call 0\<rparr>))\<lparr>products := Map.empty\<rparr>)) =
     kv (client ((shop WarmRedis)\<lparr>products := Map.empty\<rparr>)) \<and>
   products ((shop (WarmRedis\<lparr>faults := only_call 0\<rparr>))\<lparr>products := Map.empty\<rparr>) =
     products ((shop WarmRedis)\<lparr>products := Map.empty\<rparr>) \<and>
   fst (get_product_endpoint sample_library ''p1'' ((shop WarmRedis)\<lparr>products := Map.empty\<rparr>)) =
     Inr mouse_record \<and>
   fst (get_product_endpoint sample_library ''p1''
          ((shop (WarmRedis\<lparr>faults := only_call 0\<rparr>))\<lparr>products := Map.empty\<rparr>)) =
     Inl NotFound \<and>
   run sample_library [Read ''p1'', Delete ''p1'', Read ''p1'']
       (shop \<lparr>kv = Map.empty, faults = (\<lambda>n. n = 2)\<rparr>) =
     [Inr (Record mouse_record), Inr No_content, Inr (Record mouse_record)] \<and>
   run sample_library [Read ''p1'', Delete ''p1'', Read ''p1'']
       (shop \<lparr>kv = Map.empty, faults = (\<lambda>n. n = 2 \<or> n = 3)\<rparr>) =
     [Inr (Record mouse_record), Inr No_content, Inl NotFound]"
proof -
  have p: "parsed sample_library mouse_text = Some mouse_record"
    by (simp add: mouse_text_def sample_parsed)
  have e: "response_of ''p1'' mouse = mouse_record"
    by (simp add: response_of_def mouse_def mouse_record_def)
  have i: "r_id mouse_record = ''p1''"
    by (simp add: mouse_record_def)
  have a: "fst (get_product_endpoint sample_library ''p1'' ((shop WarmRedis)\<lparr>products := Map.empty\<rparr>)) =
     Inr mouse_record"
    by (simp add: read_outcome served_def cached_def shop_def WarmRedis_def never_def
        cache_key_def p)
  have b: "fst (get_product_endpoint sample_library ''p1''
          ((shop (WarmRedis\<lparr>faults := only_call 0\<rparr>))\<lparr>products := Map.empty\<rparr>)) =
     Inl NotFound"
    by (simp add: read_outcome served_def stored_def shop_def WarmRedis_def only_call_def)
  have r1: "run sample_library [Read ''p1'', Delete ''p1'', Read ''p1'']
       (shop \<lparr>kv = Map.empty, faults = (\<lambda>n. n = 2)\<rparr>) =
     [Inr (Record mouse_record), Inr No_content, Inr (Record mouse_record)]"
    by (simp add: handle_def read_eq delete_eq get_eq set_eq inv_eq served_def cached_def
        stored_def shop_def next_call_def emit_def Let_def
        cache_key_def sample_library_simps sample_parsed e i)
  have r2: "run sample_library [Read ''p1'', Delete ''p1'', Read ''p1'']
       (shop \<lparr>kv = Map.empty, faults = (\<lambda>n. n = 2 \<or> n = 3)\<rparr>) =
     [Inr (Record mouse_record), Inr No_content, Inl NotFound]"
    by (simp add: handle_def read_eq delete_eq get_eq set_eq inv_eq served_def cached_def
        stored_def shop_def next_call_def emit_def Let_def
        cache_key_def sample_library_simps sample_parsed e i)
  from a b r1 r2 show ?thesis
    by (simp add: shop_def WarmRedis_def)
qed

section \<open>The read path\<close>

lemma read_hit:
  assumes "served L (client s) pid = Some c"
  shows "get_product_endpoint L pid s = (Inr c, snd (get_product_from_cache L pid s))"
    and "store_calls s (snd (get_product_from_cache L pid s)) = [Cache_get (cache_key pid)]"
    and "kv (client (snd (get_product_from_cache L pid s))) = kv (client s)"
    and "products (snd (get_product_from_cache L pid s)) = products s"
  using assms
  by (auto simp: read_eq get_eq store_calls_def calls_def next_call_simps split: option.splits)

lemma read_miss_absent:
  assumes "served L (client s) pid = None" "stored s pid = None"
  shows "get_product_endpoint L pid s =
           (Inl NotFound, emit (Db_get pid) (snd (get_product_from_cache L pid s)))"
    and "store_calls s (emit (Db_get pid) (snd (get_product_from_cache L pid s))) =
           [Cache_get (cache_key pid), Db_get pid]"
    and "kv (client (emit (Db_get pid) (snd (get_product_from_cache L pid s)))) = kv (client s)"
    and "products (emit (Db_get pid) (snd (get_product_from_cache L pid s))) = products s"
  using assms
  by (auto simp: read_eq get_eq store_calls_def calls_def next_call_simps emit_def split: option.splits)

lemma read_miss_present:
  assumes "served L (client s) pid = None" "stored s pid = Some r"
  shows "get_product_endpoint L pid s =
           (Inr r, snd (set_product_in_cache L r
                          (emit (Db_get pid) (snd (get_product_from_cache L pid s)))))"
    and "store_calls s (snd (set_product_in_cache L r
                               (emit (Db_get pid) (snd (get_product_from_cache L pid s))))) =
           [Cache_get (cache_key pid), Db_get pid,
            Cache_set (cache_key pid) (model_dump_json L r) (cache_ttl_seconds s)]"
    and "kv (client (snd (set_product_in_cache L r
                            (emit (Db_get pid) (snd (get_product_from_cache L pid s)))))) =
           (if faults (client s) 1 \<or> cache_ttl_seconds s \<le> 0 then kv (client s)
            else (kv (client s))(cache_key pid \<mapsto> (model_dump_json L r, cache_ttl_seconds s)))"
    and "products (snd (set_product_in_cache L r
                          (emit (Db_get pid) (snd (get_product_from_cache L pid s))))) =
           products s"
  using assms stored_id [OF assms(2)]
  by (auto simp: read_eq get_eq set_eq store_calls_def calls_def next_call_simps emit_def
      split: option.splits)

text \<open>
  Claim C1, as amended. A Read consults the cache first and never changes the table.
  On a hit the cached Record is returned, the only store call is the cache lookup, and
  the durable store is not consulted. On a miss (no entry, an unreadable entry, or a
  failed cache-store call) the durable store is read: without a Record there, the Read
  fails with \<open>NotFound\<close> and the cache is not written; with a Record, the Record is
  returned and handed to the Cache Layer's store, which writes it under the key of the
  identifier when its cache-store call succeeds, and drops it, leaving the keys as they
  were, when that call fails or the expiry is refused.
\<close>

theorem read_through:
  "get_product_endpoint L pid s = (res, s') \<Longrightarrow>
   (\<exists>rest. store_calls s s' = Cache_get (cache_key pid) # rest) \<and> products s' = products s \<and>
   (case served L (client s) pid of
      Some c \<Rightarrow>
        res = Inr c \<and> store_calls s s' = [Cache_get (cache_key pid)] \<and>
        kv (client s') = kv (client s)
    | None \<Rightarrow>
        (case stored s pid of
           None \<Rightarrow>
             res = Inl NotFound \<and> store_calls s s' = [Cache_get (cache_key pid), Db_get pid] \<and>
             kv (client s') = kv (client s)
         | Some r \<Rightarrow>
             res = Inr r \<and>
             store_calls s s' =
               [Cache_get (cache_key pid), Db_get pid,
                Cache_set (cache_key pid) (model_dump_json L r) (cache_ttl_seconds s)] \<and>
             kv (client s') =
               (if faults (client s) 1 \<or> cache_ttl_seconds s \<le> 0 then kv (client s)
                else (kv (client s))(cache_key pid \<mapsto> (model_dump_json L r, cache_ttl_seconds s)))))"
proof (cases "served L (client s) pid")
  case (Some c)
  assume "get_product_endpoint L pid s = (res, s')"
  with read_hit [OF Some] Some show ?thesis
    by simp
next
  case None
  assume e: "get_product_endpoint L pid s = (res, s')"
  show ?thesis
  proof (cases "stored s pid")
    case absent: None
    from e read_miss_absent [OF None absent] None absent show ?thesis
      by simp
  next
    case (Some r)
    from e read_miss_present [OF None Some] None Some show ?thesis
      by simp
  qed
qed

text \<open>The first Read of the sample product on the fake Redis: a miss that fills the cache.\<close>

theorem read_through_witness:
  \<open>served sample_library (client (shop FakeRedis)) ''p1'' = None \<and>
   stored (shop FakeRedis) ''p1'' = Some mouse_record \<and>
   fst (get_product_endpoint sample_library ''p1'' (shop FakeRedis)) = Inr mouse_record \<and>
   store_calls (shop FakeRedis) (snd (get_product_endpoint sample_library ''p1'' (shop FakeRedis))) =
     [Cache_get ''product:p1'', Db_get ''p1'', Cache_set ''product:p1'' mouse_text 120] \<and>
   kv (client (snd (get_product_endpoint sample_library ''p1'' (shop FakeRedis)))) ''product:p1'' =
     Some (mouse_text, 120) \<and>
   mouse_text =
     ''{"id":"p1","name":"Wireless Mouse","description":"Ergonomic 2.4GHz wireless mouse","price":24.99,"stock_quantity":120}''\<close>
proof -
  have miss: "served sample_library (client (shop FakeRedis)) ''p1'' = None"
    by (simp add: served_def cached_def shop_def FakeRedis_def)
  have row: "stored (shop FakeRedis) ''p1'' = Some mouse_record"
    by (simp add: stored_def shop_def response_of_def mouse_def mouse_record_def)
  have ok: "\<not> faults (client (shop FakeRedis)) 1" "cache_ttl_seconds (shop FakeRedis) = 120"
    "kv (client (shop FakeRedis)) = Map.empty"
    by (simp_all add: shop_def FakeRedis_def never_def)
  have d: "model_dump_json sample_library mouse_record = mouse_text"
    by (simp add: sample_library_simps mouse_text_def)
  have t: \<open>mouse_text =
     ''{"id":"p1","name":"Wireless Mouse","description":"Ergonomic 2.4GHz wireless mouse","price":24.99,"stock_quantity":120}''\<close>
    by (simp add: mouse_text_def sample_dump_def sample_texts_def)
  have e: "get_product_endpoint sample_library ''p1'' (shop FakeRedis) =
     (fst (get_product_endpoint sample_library ''p1'' (shop FakeRedis)),
      snd (get_product_endpoint sample_library ''p1'' (shop FakeRedis)))"
    by simp
  from read_through [OF e] miss row ok d have
    "served sample_library (client (shop FakeRedis)) ''p1'' = None \<and>
     stored (shop FakeRedis) ''p1'' = Some mouse_record \<and>
     fst (get_product_endpoint sample_library ''p1'' (shop FakeRedis)) = Inr mouse_record \<and>
     store_calls (shop FakeRedis) (snd (get_product_endpoint sample_library ''p1'' (shop FakeRedis))) =
       [Cache_get ''product:p1'', Db_get ''p1'', Cache_set ''product:p1'' mouse_text 120] \<and>
     kv (client (snd (get_product_endpoint sample_library ''p1'' (shop FakeRedis)))) ''product:p1'' =
       Some (mouse_text, 120)"
    by (simp add: cache_key_def)
  with t show ?thesis
    by blast
qed

text \<open>
  The claim as first stated says that on a miss the Record found in the durable store is
  written into the cache. On the broken Redis of the test suite the Read of the sample
  product is a miss, the Record is found and returned, and the cache holds nothing
  afterwards.
\<close>

theorem read_miss_write_dropped_counterexample:
  "served sample_library (client (shop BrokenRedis)) ''p1'' = None \<and>
   stored (shop BrokenRedis) ''p1'' = Some mouse_record \<and>
   fst (get_product_endpoint sample_library ''p1'' (shop BrokenRedis)) = Inr mouse_record \<and>
   kv (client (snd (get_product_endpoint sample_library ''p1'' (shop BrokenRedis)))) = Map.empty \<and>
   cached sample_library (client (snd (get_product_endpoint sample_library ''p1'' (shop BrokenRedis))))
     ''p1'' = None"
proof -
  have miss: "served sample_library (client (shop BrokenRedis)) ''p1'' = None"
    by (simp add: served_def shop_def BrokenRedis_def always_def)
  have row: "stored (shop BrokenRedis) ''p1'' = Some mouse_record"
    by (simp add: stored_def shop_def response_of_def mouse_def mouse_record_def)
  have bad: "faults (client (shop BrokenRedis)) 1" "kv (client (shop BrokenRedis)) = Map.empty"
    by (simp_all add: shop_def BrokenRedis_def always_def)
  from read_miss_present [OF miss row] bad miss row show ?thesis
    by (simp add: cached_def)
qed

section \<open>Reading after a write\<close>

lemma inv_products: "products (snd (invalidate_product_cache pid s)) = products s"
  by (simp add: inv_eq)

lemma served_after_invalidate:
  "\<not> faults (client s) 0 \<Longrightarrow>
   served L (client (snd (invalidate_product_cache pid s))) pid = None"
  by (simp add: inv_eq served_def cached_next cached_del)

lemma stored_after_invalidate:
  "stored (snd (invalidate_product_cache pid s)) = stored s"
  by (simp add: inv_eq stored_def fun_eq_iff)

lemma read_after_create:
  assumes "\<not> faults (client s) 0"
    and "create_product_endpoint new_id payload s = (Inr written, s1)"
  shows "fst (get_product_endpoint L new_id s1) = Inr written \<and> stored s1 new_id = Some written \<and>
         written = \<lparr>r_id = new_id, r_name = c_name payload, r_description = c_description payload,
                    r_price = c_price payload, r_stock_quantity = c_stock_quantity payload\<rparr>"
  using assms
  by (auto simp: create_eq Let_def read_outcome served_after_invalidate inv_products
      stored_def emit_simps response_of_def split: if_splits)

lemma read_after_update:
  assumes "\<not> faults (client s) 0"
    and "update_product_endpoint pid payload s = (Inr written, s1)"
  shows "fst (get_product_endpoint L pid s1) = Inr written \<and> stored s1 pid = Some written"
  using assms
  by (auto simp: update_eq Let_def read_outcome served_after_invalidate inv_products
      stored_def emit_simps split: if_splits option.splits sum.splits)

text \<open>
  Claim C3, as amended. When a Create or an Update completes successfully and the
  cache-store delete call of its invalidation did not fail, an immediately following Read
  of the identifier returns exactly the Record just written, which is also the Record
  the durable store holds: the invalidation removed any entry cached earlier, so the
  Read misses and reads the store.
\<close>

theorem read_after_write:
  "\<not> faults (client s) 0 \<Longrightarrow>
   (create_product_endpoint new_id payload s = (Inr written, s1) \<longrightarrow>
      fst (get_product_endpoint L new_id s1) = Inr written \<and> stored s1 new_id = Some written \<and>
      written = \<lparr>r_id = new_id, r_name = c_name payload, r_description = c_description payload,
                 r_price = c_price payload, r_stock_quantity = c_stock_quantity payload\<rparr>) \<and>
   (update_product_endpoint pid upd s = (Inr written', s2) \<longrightarrow>
      fst (get_product_endpoint L pid s2) = Inr written' \<and> stored s2 pid = Some written')"
  using read_after_create [of s new_id payload written s1 L]
    read_after_update [of s pid upd written' s2 L]
  by blast

text \<open>
  A Create on the fake Redis, and an Update of the mouse while the cache holds its entry,
  each followed by a Read.
\<close>

theorem read_after_write_witness:
  "\<not> faults (client (shop WarmRedis)) 0 \<and>
   cached sample_library (client (shop WarmRedis)) ''p1'' = Some mouse_record \<and>
   fst (create_product_endpoint ''p2'' keyboard (shop WarmRedis)) =
     Inr \<lparr>r_id = ''p2'', r_name = ''Mechanical Keyboard'',
          r_description = ''RGB backlit mechanical keyboard'',
          r_price = Finite (159 / 2), r_stock_quantity = 75\<rparr> \<and>
   fst (get_product_endpoint sample_library ''p2''
          (snd (create_product_endpoint ''p2'' keyboard (shop WarmRedis)))) =
     Inr \<lparr>r_id = ''p2'', r_name = ''Mechanical Keyboard'',
          r_description = ''RGB backlit mechanical keyboard'',
          r_price = Finite (159 / 2), r_stock_quantity = 75\<rparr> \<and>
   fst (update_product_endpoint ''p1'' new_price (shop WarmRedis)) =
     Inr \<lparr>r_id = ''p1'', r_name = ''Wireless Mouse'',
          r_description = ''Ergonomic 2.4GHz wireless mouse'',
          r_price = Finite (1999 / 100), r_stock_quantity = 120\<rparr> \<and>
   fst (get_product_endpoint sample_library ''p1''
          (snd (update_product_endpoint ''p1'' new_price (shop WarmRedis)))) =
     Inr \<lparr>r_id = ''p1'', r_name = ''Wireless Mouse'',
          r_description = ''Ergonomic 2.4GHz wireless mouse'',
          r_price = Finite (1999 / 100), r_stock_quantity = 120\<rparr>"
proof -
  have f: "\<not> faults (client (shop WarmRedis)) 0"
    by (simp add: shop_def WarmRedis_def never_def)
  have w: "cached sample_library (client (shop WarmRedis)) ''p1'' = Some mouse_record"
    by (simp add: cached_def shop_def WarmRedis_def cache_key_def mouse_text_def sample_parsed)
  have c: "fst (create_product_endpoint ''p2'' keyboard (shop WarmRedis)) =
     Inr \<lparr>r_id = ''p2'', r_name = ''Mechanical Keyboard'',
          r_description = ''RGB backlit mechanical keyboard'',
          r_price = Finite (159 / 2), r_stock_quantity = 75\<rparr>"
    by (simp add: create_outcome shop_def keyboard_def int64_def)
  have u: "fst (update_product_endpoint ''p1'' new_price (shop WarmRedis)) =
     Inr \<lparr>r_id = ''p1'', r_name = ''Wireless Mouse'',
          r_description = ''Ergonomic 2.4GHz wireless mouse'',
          r_price = Finite (1999 / 100), r_stock_quantity = 120\<rparr>"
    by (simp add: update_outcome shop_def new_price_def mouse_def model_dump_exclude_unset_def
        merge_fields load_def to_row_def int64_def response_of_def)
  from c have ce: "create_product_endpoint ''p2'' keyboard (shop WarmRedis) =
     (Inr \<lparr>r_id = ''p2'', r_name = ''Mechanical Keyboard'',
           r_description = ''RGB backlit mechanical keyboard'',
           r_price = Finite (159 / 2), r_stock_quantity = 75\<rparr>,
      snd (create_product_endpoint ''p2'' keyboard (shop WarmRedis)))"
    by (simp add: prod_eq_iff)
  from u have ue: "update_product_endpoint ''p1'' new_price (shop WarmRedis) =
     (Inr \<lparr>r_id = ''p1'', r_name = ''Wireless Mouse'',
           r_description = ''Ergonomic 2.4GHz wireless mouse'',
           r_price = Finite (1999 / 100), r_stock_quantity = 120\<rparr>,
      snd (update_product_endpoint ''p1'' new_price (shop WarmRedis)))"
    by (simp add: prod_eq_iff)
  from read_after_write [OF f, of "''p2''" keyboard _ _ sample_library "''p1''" new_price] ce ue f c u w
  show ?thesis
    by blast
qed

text \<open>
  The claim as first stated makes no condition on the cache store. Start from an empty
  cache whose third call alone fails. The first Read fills the cache (calls one and two),
  the Update succeeds while the delete call of its invalidation fails and is swallowed,
  and the Read that follows immediately is served the entry cached before the Update: the
  old price, not the one just written.
\<close>

theorem stale_read_after_failed_invalidation_counterexample:
  "run sample_library [Read ''p1'', Update ''p1'' new_price, Read ''p1'']
       (shop \<lparr>kv = Map.empty, faults = only_call 2\<rparr>) =
     [Inr (Record \<lparr>r_id = ''p1'', r_name = ''Wireless Mouse'',
                   r_description = ''Ergonomic 2.4GHz wireless mouse'',
                   r_price = Finite (2499 / 100), r_stock_quantity = 120\<rparr>),
      Inr (Record \<lparr>r_id = ''p1'', r_name = ''Wireless Mouse'',
                   r_description = ''Ergonomic 2.4GHz wireless mouse'',
                   r_price = Finite (1999 / 100), r_stock_quantity = 120\<rparr>),
      Inr (Record \<lparr>r_id = ''p1'', r_name = ''Wireless Mouse'',
                   r_description = ''Ergonomic 2.4GHz wireless mouse'',
                   r_price = Finite (2499 / 100), r_stock_quantity = 120\<rparr>)]"
proof -
  have e: "response_of ''p1'' mouse = mouse_record"
    by (simp add: response_of_def mouse_def mouse_record_def)
  have i: "r_id mouse_record = ''p1''"
    by (simp add: mouse_record_def)
  have n: "model_dump_exclude_unset new_price \<noteq> []"
    by (simp add: new_price_def model_dump_exclude_unset_def)
  have t: "to_row (merge (load ''p1'' mouse) new_price) =
           Inr (mouse\<lparr>col_price := Finite (1999 / 100)\<rparr>)"
    by (simp add: to_row_def merge_fields load_def new_price_def mouse_def int64_def)
  have e': "response_of ''p1'' (mouse\<lparr>col_price := Finite (1999 / 100)\<rparr>) = cheaper_mouse"
    by (simp add: response_of_def mouse_def mouse_record_def cheaper_mouse_def)
  have "run sample_library [Read ''p1'', Update ''p1'' new_price, Read ''p1'']
       (shop \<lparr>kv = Map.empty, faults = only_call 2\<rparr>) =
     [Inr (Record mouse_record), Inr (Record cheaper_mouse), Inr (Record mouse_record)]"
    by (simp add: handle_def read_eq update_eq get_eq set_eq inv_eq served_def cached_def
        stored_def shop_def only_call_def next_call_def emit_def Let_def
        cache_key_def sample_library_simps sample_parsed e i n t e')
  then show ?thesis
    by (simp add: mouse_record_def cheaper_mouse_def)
qed

section \<open>Identifiers without a Record\<close>

text \<open>
  Claim C7, as amended. For an identifier without a Record in the durable store, Delete
  fails with \<open>NotFound\<close>; Update fails with \<open>NotFound\<close> when its payload sets at least
  one field (an empty payload is rejected with \<open>InvalidRequest\<close> before the store is
  read); and Read fails with \<open>NotFound\<close> when the cache lookup yields no Record (no
  entry, an unreadable entry, or a failed cache-store call). After a Delete that succeeded
  and whose cache-store delete call did not fail, an immediately following Read fails with
  \<open>NotFound\<close>, whatever entry the cache held for the identifier before the Delete.
\<close>

theorem not_found_without_record:
  "(products s pid = None \<longrightarrow>
      fst (delete_product_endpoint pid s) = Inl NotFound \<and>
      (model_dump_exclude_unset upd \<noteq> [] \<longrightarrow> fst (update_product_endpoint pid upd s) = Inl NotFound) \<and>
      (served L (client s) pid = None \<longrightarrow> fst (get_product_endpoint L pid s) = Inl NotFound)) \<and>
   (delete_product_endpoint pid s = (Inr (), s1) \<and> \<not> faults (client s) 0 \<longrightarrow>
      fst (get_product_endpoint L pid s1) = Inl NotFound \<and> stored s1 pid = None)"
  by (auto simp: delete_outcome update_outcome read_outcome stored_def delete_eq
      served_after_invalidate inv_products emit_simps split: if_splits)

text \<open>
  An unknown identifier on the fake Redis, and a Delete of the sample product while the
  cache still holds its entry.
\<close>

theorem not_found_without_record_witness:
  "products (shop FakeRedis) ''p2'' = None \<and>
   fst (delete_product_endpoint ''p2'' (shop FakeRedis)) = Inl NotFound \<and>
   model_dump_exclude_unset new_price \<noteq> [] \<and>
   fst (update_product_endpoint ''p2'' new_price (shop FakeRedis)) = Inl NotFound \<and>
   served sample_library (client (shop FakeRedis)) ''p2'' = None \<and>
   fst (get_product_endpoint sample_library ''p2'' (shop FakeRedis)) = Inl NotFound \<and>
   cached sample_library (client (shop WarmRedis)) ''p1'' = Some mouse_record \<and>
   fst (delete_product_endpoint ''p1'' (shop WarmRedis)) = Inr () \<and>
   fst (get_product_endpoint sample_library ''p1''
         (snd (delete_product_endpoint ''p1'' (shop WarmRedis)))) =
     Inl NotFound"
proof -
  have a: "products (shop FakeRedis) ''p2'' = None"
    by (simp add: shop_def)
  have b: "model_dump_exclude_unset new_price \<noteq> []"
    by (simp add: new_price_def model_dump_exclude_unset_def)
  have c: "served sample_library (client (shop FakeRedis)) ''p2'' = None"
    by (simp add: served_def cached_def shop_def FakeRedis_def)
  have w: "cached sample_library (client (shop WarmRedis)) ''p1'' = Some mouse_record"
    by (simp add: cached_def shop_def WarmRedis_def cache_key_def mouse_text_def sample_parsed)
  have d: "fst (delete_product_endpoint ''p1'' (shop WarmRedis)) = Inr ()"
    by (simp add: delete_outcome shop_def)
  then have de: "delete_product_endpoint ''p1'' (shop WarmRedis) =
      (Inr (), snd (delete_product_endpoint ''p1'' (shop WarmRedis)))"
    by (simp add: prod_eq_iff)
  have f: "\<not> faults (client (shop WarmRedis)) 0"
    by (simp add: shop_def WarmRedis_def never_def)
  from not_found_without_record [of "shop FakeRedis" "''p2''" new_price sample_library s1 for s1]
       not_found_without_record [of "shop WarmRedis" "''p1''" new_price sample_library
                                    "snd (delete_product_endpoint ''p1'' (shop WarmRedis))"]
       a b c d de f w
  show ?thesis
    by blast
qed

text \<open>
  The claim as first stated fails in three ways. A cache that still holds the sample
  product beside a table from which the row is gone, as in the test
  \<open>test_get_product_cache_miss_then_hit\<close>, serves the Record: the Read succeeds. An
  Update with an empty payload on an unknown identifier fails with \<open>InvalidRequest\<close>,
  not \<open>NotFound\<close>. And when the delete call of a Delete's invalidation fails (here the
  third call of the cache store), the Read after the successful Delete is served the entry
  cached before it.
\<close>

theorem read_served_without_record_counterexample:
  "stored ((shop WarmRedis)\<lparr>products := Map.empty\<rparr>) ''p1'' = None \<and>
   fst (get_product_endpoint sample_library ''p1'' ((shop WarmRedis)\<lparr>products := Map.empty\<rparr>)) =
     Inr mouse_record \<and>
   fst (update_product_endpoint ''p2''
         \<lparr>u_name = Unset, u_description = Unset, u_price = Unset, u_stock_quantity = Unset\<rparr>
         (shop FakeRedis)) = Inl InvalidRequest \<and>
   InvalidRequest \<noteq> NotFound \<and>
   run sample_library [Read ''p1'', Delete ''p1'', Read ''p1'']
       (shop \<lparr>kv = Map.empty, faults = only_call 2\<rparr>) =
     [Inr (Record mouse_record), Inr No_content, Inr (Record mouse_record)]"
proof -
  have p: "parsed sample_library mouse_text = Some mouse_record"
    by (simp add: mouse_text_def sample_parsed)
  have e: "response_of ''p1'' mouse = mouse_record"
    by (simp add: response_of_def mouse_def mouse_record_def)
  have i: "r_id mouse_record = ''p1''"
    by (simp add: mouse_record_def)
  have s: "stored ((shop WarmRedis)\<lparr>products := Map.empty\<rparr>) ''p1'' = None"
    by (simp add: stored_def shop_def)
  have a: "fst (get_product_endpoint sample_library ''p1'' ((shop WarmRedis)\<lparr>products := Map.empty\<rparr>)) =
     Inr mouse_record"
    by (simp add: read_outcome served_def cached_def shop_def WarmRedis_def never_def
        cache_key_def p)
  have u: "fst (update_product_endpoint ''p2''
         \<lparr>u_name = Unset, u_description = Unset, u_price = Unset, u_stock_quantity = Unset\<rparr>
         (shop FakeRedis)) = Inl InvalidRequest"
    by (simp add: update_outcome model_dump_exclude_unset_def)
  have n: "InvalidRequest \<noteq> NotFound"
    by (simp add: InvalidRequest_def NotFound_def)
  have r: "run sample_library [Read ''p1'', Delete ''p1'', Read ''p1'']
       (shop \<lparr>kv = Map.empty, faults = only_call 2\<rparr>) =
     [Inr (Record mouse_record), Inr No_content, Inr (Record mouse_record)]"
    by (simp add: handle_def read_eq delete_eq get_eq set_eq inv_eq served_def cached_def
        stored_def shop_def only_call_def next_call_def emit_def Let_def
        cache_key_def sample_library_simps sample_parsed e i)
  from s a u n r show ?thesis
    by blast
qed

section \<open>Cache transparency\<close>

lemma served_healthy: "healthy r \<Longrightarrow> served L r pid = cached L r pid"
  by (simp add: served_def healthy_def)

lemma served_broken: "broken r \<Longrightarrow> served L r pid = None"
  by (simp add: served_def broken_def)

lemma stored_products: "products b = products s \<Longrightarrow> stored b = stored s"
  by (simp add: stored_def fun_eq_iff)

lemma broken_after:
  "broken (client b) \<Longrightarrow> broken (client (snd (create_product_endpoint new_id payload b)))"
  "broken (client b) \<Longrightarrow> broken (client (snd (get_product_endpoint L pid b)))"
  "broken (client b) \<Longrightarrow> broken (client (snd (update_product_endpoint pid upd b)))"
  "broken (client b) \<Longrightarrow> broken (client (snd (delete_product_endpoint pid b)))"
  by (auto simp: create_eq read_eq update_eq delete_eq get_eq set_eq inv_eq emit_simps Let_def
      broken_next broken_first split: option.splits sum.splits)

lemma healthy_after:
  "healthy (client s) \<Longrightarrow> healthy (client (snd (create_product_endpoint new_id payload s)))"
  "healthy (client s) \<Longrightarrow> healthy (client (snd (get_product_endpoint L pid s)))"
  "healthy (client s) \<Longrightarrow> healthy (client (snd (update_product_endpoint pid upd s)))"
  "healthy (client s) \<Longrightarrow> healthy (client (snd (delete_product_endpoint pid s)))"
  by (auto simp: create_eq read_eq update_eq delete_eq get_eq set_eq inv_eq emit_simps Let_def
      healthy_next healthy_kv split: option.splits sum.splits)

lemma coherent_create:
  assumes "healthy (client s)" "coherent L s"
  shows "coherent L (snd (create_product_endpoint new_id payload s))"
  using assms healthy_first [OF assms(1)]
  by (auto simp: coherent_def create_eq inv_eq emit_simps Let_def cached_next cached_del stored_def emit_def)

lemma coherent_update:
  assumes "healthy (client s)" "coherent L s"
  shows "coherent L (snd (update_product_endpoint pid upd s))"
  using assms healthy_first [OF assms(1)]
  by (auto simp: coherent_def update_eq inv_eq emit_simps Let_def cached_next cached_del stored_def emit_def
      split: option.splits sum.splits)

lemma coherent_delete:
  assumes "healthy (client s)" "coherent L s"
  shows "coherent L (snd (delete_product_endpoint pid s))"
  using assms healthy_first [OF assms(1)]
  by (auto simp: coherent_def delete_eq inv_eq emit_simps Let_def cached_next cached_del stored_def emit_def)

lemma coherent_read:
  assumes h: "healthy (client s)" and c: "coherent L s" and f: "faithful L"
  shows "coherent L (snd (get_product_endpoint L pid s))"
proof (cases "served L (client s) pid")
  case (Some c')
  with h c show ?thesis
    by (auto simp: coherent_def read_eq get_eq cached_next stored_def)
next
  case None
  show ?thesis
  proof (cases "stored s pid")
    case absent: None
    with None h c show ?thesis
      by (auto simp: coherent_def read_eq get_eq cached_next stored_def emit_def)
  next
    case (Some r)
    let ?s' = "snd (get_product_endpoint L pid s)"
    let ?ttl = "cache_ttl_seconds s"
    have id: "r_id r = pid"
      using Some by (rule stored_id)
    have kv': "kv (client ?s') =
        (if faults (client s) 1 \<or> ?ttl \<le> 0 then kv (client s)
         else (kv (client s))(cache_key pid \<mapsto> (model_dump_json L r, ?ttl)))"
      using read_miss_present [OF None Some] by simp
    have st: "stored ?s' = stored s"
      by (rule stored_products) (rule read_products)
    show ?thesis
      unfolding coherent_def
    proof (intro allI impI)
      fix b p
      assume hit: "cached L (client ?s') b = Some p"
      show "stored ?s' b = Some p"
      proof (cases "faults (client s) 1 \<or> ?ttl \<le> 0")
        case True
        with kv' have "kv (client ?s') = kv (client s)"
          by simp
        then have "cached L (client ?s') = cached L (client s)"
          by (rule cached_cong)
        with hit c show ?thesis
          by (simp add: coherent_def st)
      next
        case False
        with kv' have "kv (client ?s') =
            kv ((client s)\<lparr>kv := (kv (client s))(cache_key (r_id r) \<mapsto> (model_dump_json L r, ?ttl))\<rparr>)"
          by (simp add: id)
        then have "cached L (client ?s') =
            cached L ((client s)\<lparr>kv := (kv (client s))(cache_key (r_id r) \<mapsto> (model_dump_json L r, ?ttl))\<rparr>)"
          by (rule cached_cong)
        then have n: "cached L (client ?s') b =
            (if b = pid then parsed L (model_dump_json L r) else cached L (client s) b)"
          using cached_set [of L "client s" "r_id r" "model_dump_json L r" ?ttl b] by (simp add: id)
        show ?thesis
        proof (cases "b = pid")
          case True
          with n hit have "parsed L (model_dump_json L r) = Some p"
            by simp
          with f have "p = r"
            by (simp add: faithful_def)
          with True Some show ?thesis
            by (simp add: st)
        next
          case False
          with n hit have "cached L (client s) b = Some p"
            by simp
          with c have "stored s b = Some p"
            by (simp add: coherent_def)
          then show ?thesis
            by (simp add: st)
        qed
      qed
    qed
  qed
qed

lemma same_table:
  assumes "products b = products s"
  shows "fst (create_product_endpoint new_id payload b) = fst (create_product_endpoint new_id payload s)"
    and "products (snd (create_product_endpoint new_id payload b)) =
         products (snd (create_product_endpoint new_id payload s))"
    and "fst (update_product_endpoint pid upd b) = fst (update_product_endpoint pid upd s)"
    and "products (snd (update_product_endpoint pid upd b)) =
         products (snd (update_product_endpoint pid upd s))"
    and "fst (delete_product_endpoint pid b) = fst (delete_product_endpoint pid s)"
    and "products (snd (delete_product_endpoint pid b)) =
         products (snd (delete_product_endpoint pid s))"
    and "products (snd (get_product_endpoint L pid b)) = products (snd (get_product_endpoint L pid s))"
  using assms
  by (simp_all add: create_outcome create_products update_outcome update_products
      delete_outcome delete_products read_products split: option.splits sum.splits)

lemma same_read:
  assumes "healthy (client s)" "broken (client b)" "products b = products s" "coherent L s"
  shows "fst (get_product_endpoint L pid b) = fst (get_product_endpoint L pid s)"
proof -
  have st: "stored b = stored s"
    using assms(3) by (rule stored_products)
  show ?thesis
  proof (cases "cached L (client s) pid")
    case None
    then show ?thesis
      by (simp add: read_outcome served_healthy [OF assms(1)] served_broken [OF assms(2)] st)
  next
    case (Some c)
    with assms(4) have "stored s pid = Some c"
      by (simp add: coherent_def)
    with Some show ?thesis
      by (simp add: read_outcome served_healthy [OF assms(1)] served_broken [OF assms(2)] st)
  qed
qed

lemma paired_step:
  assumes "paired L s b" and f: "faithful L"
  shows "fst (handle L q b) = fst (handle L q s) \<and> paired L (snd (handle L q s)) (snd (handle L q b))"
proof -
  from assms have h: "healthy (client s)" and k: "broken (client b)"
    and p: "products b = products s" and c: "coherent L s"
    by (simp_all add: paired_def)
  show ?thesis
  proof (cases q)
    case (Create new_id payload)
    have "fst (handle L q b) = fst (handle L q s)"
      by (simp add: Create handle_def split_beta same_table(1) [OF p])
    moreover have "paired L (snd (handle L q s)) (snd (handle L q b))"
      by (simp add: Create handle_def split_beta paired_def same_table(2) [OF p]
          healthy_after(1) [OF h] broken_after(1) [OF k] coherent_create [OF h c])
    ultimately show ?thesis ..
  next
    case (Read pid)
    have "fst (handle L q b) = fst (handle L q s)"
      by (simp add: Read handle_def split_beta same_read [OF h k p c])
    moreover have "paired L (snd (handle L q s)) (snd (handle L q b))"
      by (simp add: Read handle_def split_beta paired_def same_table(7) [OF p]
          healthy_after(2) [OF h] broken_after(2) [OF k] coherent_read [OF h c f])
    ultimately show ?thesis ..
  next
    case (Update pid upd)
    have "fst (handle L q b) = fst (handle L q s)"
      by (simp add: Update handle_def split_beta same_table(3) [OF p])
    moreover have "paired L (snd (handle L q s)) (snd (handle L q b))"
      by (simp add: Update handle_def split_beta paired_def same_table(4) [OF p]
          healthy_after(3) [OF h] broken_after(3) [OF k] coherent_update [OF h c])
    ultimately show ?thesis ..
  next
    case (Delete pid)
    have "fst (handle L q b) = fst (handle L q s)"
      by (simp add: Delete handle_def split_beta same_table(5) [OF p])
    moreover have "paired L (snd (handle L q s)) (snd (handle L q b))"
      by (simp add: Delete handle_def split_beta paired_def same_table(6) [OF p]
          healthy_after(4) [OF h] broken_after(4) [OF k] coherent_delete [OF h c])
    ultimately show ?thesis ..
  qed
qed

lemma paired_run: "faithful L \<Longrightarrow> paired L s b \<Longrightarrow> run L qs b = run L qs s"
proof (induction qs arbitrary: s b)
  case Nil
  then show ?case
    by simp
next
  case (Cons q qs)
  from paired_step [OF Cons.prems(2) Cons.prems(1), of q]
  have o: "fst (handle L q b) = fst (handle L q s)"
    and n: "paired L (snd (handle L q s)) (snd (handle L q b))"
    by simp_all
  from Cons.IH [OF Cons.prems(1) n] o show ?case
    by (simp add: split_beta)
qed

lemma coherent_empty: "kv (client s) = Map.empty \<Longrightarrow> coherent L s"
  by (simp add: coherent_def cached_def)

text \<open>
  Claim C2. Take any sequence of Create, Read, Update and Delete requests and run it
  twice from the same table: once with a cache store that never fails, starting from a
  cache that serves nothing but what the table holds (an empty cache in particular), and
  once with a cache store whose every call fails. The two runs give, request by request,
  the same outcome: the same failure, or the same Record, or the same empty reply. This
  holds with any serialisation libraries that are faithful: the text written for a Record
  is read back as that Record or refused, never read as another Record.
\<close>

theorem cache_transparency:
  "faithful L \<Longrightarrow>
   healthy (client s) \<Longrightarrow> broken (client b) \<Longrightarrow> products b = products s \<Longrightarrow> coherent L s \<Longrightarrow>
   run L qs b = run L qs s"
  using paired_run [of L s b qs] by (simp add: paired_def)

text \<open>
  The fake and the broken Redis of the test suite on one sequence: a Create, reads that
  miss and hit, an Update, a Delete, and a last Read of the deleted identifier.
\<close>

theorem cache_transparency_witness:
  "faithful sample_library \<and>
   healthy (client (shop FakeRedis)) \<and> broken (client (shop BrokenRedis)) \<and>
   products (shop BrokenRedis) = products (shop FakeRedis) \<and>
   coherent sample_library (shop FakeRedis) \<and>
   run sample_library
       [Create ''p2'' keyboard, Read ''p2'', Read ''p2'', Update ''p2'' new_price, Read ''p2'',
        Delete ''p2'', Read ''p2''] (shop BrokenRedis) =
   run sample_library
       [Create ''p2'' keyboard, Read ''p2'', Read ''p2'', Update ''p2'' new_price, Read ''p2'',
        Delete ''p2'', Read ''p2''] (shop FakeRedis) \<and>
   run sample_library
       [Create ''p2'' keyboard, Read ''p2'', Read ''p2'', Update ''p2'' new_price, Read ''p2'',
        Delete ''p2'', Read ''p2''] (shop FakeRedis) =
     [Inr (Record \<lparr>r_id = ''p2'', r_name = ''Mechanical Keyboard'',
                   r_description = ''RGB backlit mechanical keyboard'',
                   r_price = Finite (159 / 2), r_stock_quantity = 75\<rparr>),
      Inr (Record \<lparr>r_id = ''p2'', r_name = ''Mechanical Keyboard'',
                   r_description = ''RGB backlit mechanical keyboard'',
                   r_price = Finite (159 / 2), r_stock_quantity = 75\<rparr>),
      Inr (Record \<lparr>r_id = ''p2'', r_name = ''Mechanical Keyboard'',
                   r_description = ''RGB backlit mechanical keyboard'',
                   r_price = Finite (159 / 2), r_stock_quantity = 75\<rparr>),
      Inr (Record \<lparr>r_id = ''p2'', r_name = ''Mechanical Keyboard'',
                   r_description = ''RGB backlit mechanical keyboard'',
                   r_price = Finite (1999 / 100), r_stock_quantity = 75\<rparr>),
      Inr (Record \<lparr>r_id = ''p2'', r_name = ''Mechanical Keyboard'',
                   r_description = ''RGB backlit mechanical keyboard'',
                   r_price = Finite (1999 / 100), r_stock_quantity = 75\<rparr>),
      Inr No_content,
      Inl NotFound]"
proof -
  have f: "faithful sample_library"
    by (rule faithful_sample)
  have h: "healthy (client (shop FakeRedis))"
    by (simp add: shop_def healthy_FakeRedis)
  have k: "broken (client (shop BrokenRedis))"
    by (simp add: shop_def broken_BrokenRedis)
  have p: "products (shop BrokenRedis) = products (shop FakeRedis)"
    by (simp add: shop_def)
  have c: "coherent sample_library (shop FakeRedis)"
    by (rule coherent_empty) (simp add: shop_def FakeRedis_def)
  have v: "run sample_library
        [Create ''p2'' keyboard, Read ''p2'', Read ''p2'', Update ''p2'' new_price, Read ''p2'',
        Delete ''p2'', Read ''p2''] (shop BrokenRedis) =
     [Inr (Record \<lparr>r_id = ''p2'', r_name = ''Mechanical Keyboard'',
                   r_description = ''RGB backlit mechanical keyboard'',
                   r_price = Finite (159 / 2), r_stock_quantity = 75\<rparr>),
      Inr (Record \<lparr>r_id = ''p2'', r_name = ''Mechanical Keyboard'',
                   r_description = ''RGB backlit mechanical keyboard'',
                   r_price = Finite (159 / 2), r_stock_quantity = 75\<rparr>),
      Inr (Record \<lparr>r_id = ''p2'', r_name = ''Mechanical Keyboard'',
                   r_description = ''RGB backlit mechanical keyboard'',
                   r_price = Finite (159 / 2), r_stock_quantity = 75\<rparr>),
      Inr (Record \<lparr>r_id = ''p2'', r_name = ''Mechanical Keyboard'',
                   r_description = ''RGB backlit mechanical keyboard'',
                   r_price = Finite (1999 / 100), r_stock_quantity = 75\<rparr>),
      Inr (Record \<lparr>r_id = ''p2'', r_name = ''Mechanical Keyboard'',
                   r_description = ''RGB backlit mechanical keyboard'',
                   r_price = Finite (1999 / 100), r_stock_quantity = 75\<rparr>),
      Inr No_content,
      Inl NotFound]"
    by (simp add: handle_def read_eq update_eq delete_eq create_eq get_eq set_eq inv_eq
        served_def stored_def shop_def BrokenRedis_def always_def next_call_def emit_def
        keyboard_def new_price_def response_of_def model_dump_exclude_unset_def merge_fields
        load_def to_row_def int64_def Let_def)
  have e: "run sample_library
        [Create ''p2'' keyboard, Read ''p2'', Read ''p2'', Update ''p2'' new_price, Read ''p2'',
        Delete ''p2'', Read ''p2''] (shop BrokenRedis) =
      run sample_library
        [Create ''p2'' keyboard, Read ''p2'', Read ''p2'', Update ''p2'' new_price, Read ''p2'',
        Delete ''p2'', Read ''p2''] (shop FakeRedis)"
    by (rule cache_transparency [OF f h k p c])
  from e v have w: "run sample_library
        [Create ''p2'' keyboard, Read ''p2'', Read ''p2'', Update ''p2'' new_price, Read ''p2'',
        Delete ''p2'', Read ''p2''] (shop FakeRedis) =
     [Inr (Record \<lparr>r_id = ''p2'', r_name = ''Mechanical Keyboard'',
                   r_description = ''RGB backlit mechanical keyboard'',
                   r_price = Finite (159 / 2), r_stock_quantity = 75\<rparr>),
      Inr (Record \<lparr>r_id = ''p2'', r_name = ''Mechanical Keyboard'',
                   r_description = ''RGB backlit mechanical keyboard'',
                   r_price = Finite (159 / 2), r_stock_quantity = 75\<rparr>),
      Inr (Record \<lparr>r_id = ''p2'', r_name = ''Mechanical Keyboard'',
                   r_description = ''RGB backlit mechanical keyboard'',
                   r_price = Finite (159 / 2), r_stock_quantity = 75\<rparr>),
      Inr (Record \<lparr>r_id = ''p2'', r_name = ''Mechanical Keyboard'',
                   r_description = ''RGB backlit mechanical keyboard'',
                   r_price = Finite (1999 / 100), r_stock_quantity = 75\<rparr>),
      Inr (Record \<lparr>r_id = ''p2'', r_name = ''Mechanical Keyboard'',
                   r_description = ''RGB backlit mechanical keyboard'',
                   r_price = Finite (1999 / 100), r_stock_quantity = 75\<rparr>),
      Inr No_content,
      Inl NotFound]"
    by (simp only:)
  from f h k p c e w show ?thesis
    by (intro conjI)
qed

end
